theory Spec2Isabelle
  imports Main
begin

section \<open>Values thrown, requests and library objects\<close>

text \<open>
  A JavaScript \<open>throw\<close> (and a rejected promise) is a value of type \<open>thrown\<close>.
  The program throws object literals with the keys \<open>type\<close>, \<open>title\<close>, \<open>message\<close>
  and, at one place, \<open>error\<close>; a client library rejects with an error of its own
  (\<open>Rejected\<close>, with the library's description); reading a property of \<open>undefined\<close>
  raises a \<open>TypeError\<close>.
\<close>

datatype thrown =
    Tagged (err_type: string) (err_title: string) (err_message: string) (err_error: "thrown option")
  | Rejected string
  | TypeError string

record RetryConfig =
  httpMethodsToRetry :: "string list"

record FetchIdTokenOptions =
  includeEmail :: bool

record FetchIdTokenResponse =
  token :: string

record FetchUserInfoResponse =
  email :: string

text \<open>The \<open>data\<close> object of the generateIdToken request (index.ts, lines 67-71).\<close>

record GenerateIdTokenData =
  delegates :: "string list"
  audience :: string
  data_includeEmail :: bool

text \<open>
  The options object handed to \<open>request\<close>. A key the source leaves out is \<open>None\<close>
  (\<open>http_method\<close>, \<open>data\<close>) or the empty list (\<open>headers\<close>).
\<close>

record RequestOptions =
  url :: string
  http_method :: "string option"
  headers :: "(string \<times> string) list"
  data :: "GenerateIdTokenData option"
  retry :: bool
  retryConfig :: RetryConfig

text \<open>
  The client returned by \<open>auth.getClient()\<close>: the program only asks whether it is an
  instance of \<open>JWT\<close>, and then reads its \<open>email\<close> (a string or \<open>undefined\<close>).
\<close>

datatype AuthClient = JWT "string option" | Compute | OtherJSONClient

datatype GoogleAuth = GoogleAuth (auth_projectId: string) (auth_scopes: "string list")

datatype CredentialBody = CredentialBody (credentials_client_email: "string option")

datatype AccessToken = TokenString string | TokenNull | TokenUndefined

datatype Impersonated =
  Impersonated (imp_projectId: string) (imp_sourceClient: AuthClient)
    (imp_targetPrincipal: string) (imp_targetScopes: "string list")

record DefaultEnhancedIdTokenProvider =
  client_email :: string
  sourceClient :: AuthClient

datatype IEnhancedIdTokenProvider =
    ImpersonatedProvider Impersonated
  | DefaultProvider DefaultEnhancedIdTokenProvider

text \<open>Resource Manager project and IAP OAuth client; \<open>None\<close> is \<open>null\<close> or \<open>undefined\<close>.\<close>

datatype Project = Project (project_name: "string option")

datatype IdentityAwareProxyClient =
  IdentityAwareProxyClient (client_name: "string option") (displayName: "string option")

section \<open>The environment and the process\<close>

text \<open>
  What \<open>parser.parseAsync()\<close> does with the arguments: it resolves with the parsed
  arguments, of which the program reads \<open>targetPrincipal\<close>; it rejects; or it prints for
  itself and ends the process with an exit code, as yargs does by default for
  \<open>--version\<close> and \<open>--help\<close> (code 0) and for arguments it refuses.
\<close>

datatype parsed = Resolves "string option" | Rejects thrown | Exits nat

text \<open>
  Everything outside the program: the environment variables, the argument parser and the
  answers of the client libraries. Each call of a client library resolves (\<open>Inr\<close>) or
  rejects (\<open>Inl\<close>); of the libraries only the parser ends the process by itself. A call
  is made at most once in a run, so its answer depends on its arguments only. The
  \<open>parent\<close> of the IAP listing is
  \<open>join(iapClient.projectPath(projectId), 'brands', projectNumber)\<close>, computed by library
  functions: the model keeps its two inputs.
\<close>

record world =
  env :: "string \<Rightarrow> string option"
  parseAsync :: "string list \<Rightarrow> parsed"
  getProject :: "string \<Rightarrow> thrown + Project"
  listIdentityAwareProxyClients :: "string \<Rightarrow> string \<Rightarrow> thrown + IdentityAwareProxyClient list"
  auth_getClient :: "GoogleAuth \<Rightarrow> thrown + AuthClient"
  auth_getCredentials :: "GoogleAuth \<Rightarrow> thrown + CredentialBody"
  auth_getAccessToken :: "GoogleAuth \<Rightarrow> thrown + AccessToken"
  auth_request :: "GoogleAuth \<Rightarrow> RequestOptions \<Rightarrow> thrown + FetchUserInfoResponse"
  client_getAccessToken :: "AuthClient \<Rightarrow> thrown + unit"
  client_request :: "AuthClient \<Rightarrow> RequestOptions \<Rightarrow> thrown + FetchIdTokenResponse"
  impersonated_fetchIdToken ::
    "Impersonated \<Rightarrow> string \<Rightarrow> FetchIdTokenOptions option \<Rightarrow> thrown + string"

text \<open>What \<open>console.dir\<close>, \<open>console.error\<close> and \<open>console.log\<close> print.\<close>

datatype printed =
    ProviderType string "string option"
  | TokenDump string
  | FetchEmailError thrown
  | ERROR thrown
  | Line string

text \<open>The calls that leave the program, in the order they are made.\<close>

datatype event =
    GetProject string
  | ListIdentityAwareProxyClients string string
  | AuthGetClient GoogleAuth
  | AuthGetCredentials GoogleAuth
  | AuthGetAccessToken GoogleAuth
  | AuthRequest GoogleAuth RequestOptions
  | ClientGetAccessToken AuthClient
  | ClientRequest AuthClient RequestOptions
  | ImpersonatedFetchIdToken Impersonated string "FetchIdTokenOptions option"
  | Stdout printed
  | Stderr printed

record process =
  exitCode :: "nat option"
  trace :: "event list"

section \<open>Sequencing, throwing and catching\<close>

type_synonym ('s, 'a) eff = "'s \<Rightarrow> (thrown + 'a) \<times> 's"

definition return :: "'a \<Rightarrow> ('s, 'a) eff" where
  "return a s = (Inr a, s)"

definition throw :: "thrown \<Rightarrow> ('s, 'a) eff" where
  "throw e s = (Inl e, s)"

definition andThen :: "('s, 'a) eff \<Rightarrow> ('a \<Rightarrow> ('s, 'b) eff) \<Rightarrow> ('s, 'b) eff" where
  "andThen m f s = (case m s of (Inl e, s') \<Rightarrow> (Inl e, s') | (Inr a, s') \<Rightarrow> f a s')"

definition tryCatch :: "('s, 'a) eff \<Rightarrow> (thrown \<Rightarrow> ('s, 'a) eff) \<Rightarrow> ('s, 'a) eff" where
  "tryCatch m h s = (case m s of (Inl e, s') \<Rightarrow> h e s' | (Inr a, s') \<Rightarrow> (Inr a, s'))"

definition emit :: "event \<Rightarrow> ('a process_scheme, unit) eff" where
  "emit ev s = (Inr (), s\<lparr>trace := trace s @ [ev]\<rparr>)"

text \<open>\<open>await\<close> of a library call: the call is made, then it resolves or rejects.\<close>

definition await :: "event \<Rightarrow> thrown + 'a \<Rightarrow> ('b process_scheme, 'a) eff" where
  "await ev r = andThen (emit ev) (\<lambda>_. case r of Inl e \<Rightarrow> throw e | Inr a \<Rightarrow> return a)"

definition setExitCode :: "nat \<Rightarrow> ('a process_scheme, unit) eff" where
  "setExitCode n s = (Inr (), s\<lparr>exitCode := Some n\<rparr>)"

section \<open>JavaScript operators the program uses\<close>

text \<open>A string or \<open>undefined\<close> is truthy when it is a non-empty string.\<close>

fun truthy :: "string option \<Rightarrow> bool" where
  "truthy None = False"
| "truthy (Some s) = (s \<noteq> [])"

text \<open>\<open>a || b\<close>: \<open>a\<close> when it is truthy, \<open>b\<close> otherwise.\<close>

definition js_or :: "string option \<Rightarrow> string option \<Rightarrow> string option" where
  "js_or a b = (if truthy a then a else b)"

text \<open>\<open>s.split(sep)\<close> for a one-character separator: never the empty array.\<close>

fun split :: "char \<Rightarrow> string \<Rightarrow> string list" where
  "split sep [] = [[]]"
| "split sep (x # xs) =
     (if x = sep then [] # split sep xs
      else (case split sep xs of [] \<Rightarrow> [[x]] | y # ys \<Rightarrow> (x # y) # ys))"

text \<open>\<open>a.pop()\<close>: the last element, \<open>undefined\<close> on the empty array.\<close>

definition pop :: "'a list \<Rightarrow> 'a option" where
  "pop xs = (case rev xs of [] \<Rightarrow> None | x # _ \<Rightarrow> Some x)"

text \<open>A template literal prints \<open>null\<close> and \<open>undefined\<close> by name.\<close>

fun template :: "AccessToken \<Rightarrow> string" where
  "template (TokenString s) = s"
| "template TokenNull = ''null''"
| "template TokenUndefined = ''undefined''"

section \<open>The program (index.ts, lines 1-201)\<close>

definition RETRY_CONFIG :: RetryConfig where
  "RETRY_CONFIG = \<lparr>httpMethodsToRetry = [''GET'', ''PUT'', ''POST'', ''HEAD'', ''OPTIONS'', ''DELETE'']\<rparr>"

definition ENDPOINT :: string where
  "ENDPOINT = ''https://iamcredentials.googleapis.com''"

definition fetchIdToken ::
  "world \<Rightarrow> DefaultEnhancedIdTokenProvider \<Rightarrow> string \<Rightarrow> FetchIdTokenOptions option
     \<Rightarrow> ('a process_scheme, string) eff" where
  "fetchIdToken w this targetAudience options =
     andThen (await (ClientGetAccessToken (sourceClient this))
                (client_getAccessToken w (sourceClient this))) (\<lambda>_.
       let name = ''projects/-/serviceAccounts/'' @ client_email this;
           url = ENDPOINT @ ''/v1/'' @ name @ '':generateIdToken'';
           data = \<lparr>delegates = [], audience = targetAudience,
                   data_includeEmail = (case options of None \<Rightarrow> True | Some opts \<Rightarrow> includeEmail opts)\<rparr>;
           req = \<lparr>url = url, http_method = Some ''POST'', headers = [], data = Some data,
                  retry = True, retryConfig = RETRY_CONFIG\<rparr>
       in andThen (await (ClientRequest (sourceClient this) req)
                     (client_request w (sourceClient this) req)) (\<lambda>res.
            return (token res)))"

definition fetchEmail :: "world \<Rightarrow> GoogleAuth \<Rightarrow> ('a process_scheme, string) eff" where
  "fetchEmail w auth =
     (let url = ''https://www.googleapis.com/oauth2/v3/userinfo'' in
      andThen (await (AuthGetAccessToken auth) (auth_getAccessToken w auth)) (\<lambda>accessToken.
        let headers = [(''Authorization'', ''Bearer '' @ template accessToken)];
            req = \<lparr>url = url, http_method = None, headers = headers, data = None,
                   retry = True, retryConfig = RETRY_CONFIG\<rparr>
        in tryCatch
             (andThen (await (AuthRequest auth req) (auth_request w auth req)) (\<lambda>res.
                return (email res)))
             (\<lambda>error. andThen (emit (Stderr (FetchEmailError error))) (\<lambda>_. return ''''))))"

text \<open>
  \<open>assert\<close> throws when its first argument is falsy. The argument is \<open>undefined\<close>
  (\<open>None\<close>) or a value whose truthiness the caller's type fixes: a string is truthy
  when it is not empty, an object always. \<open>context ?? inspect(context)\<close> is the context
  when there is one and the text \<open>undefined\<close> otherwise.
\<close>

definition assert ::
  "('a \<Rightarrow> bool) \<Rightarrow> 'a option \<Rightarrow> string \<Rightarrow> string option \<Rightarrow> ('s, 'a) eff" where
  "assert truthy_value union' entity context =
     (if (case union' of None \<Rightarrow> False | Some v \<Rightarrow> truthy_value v)
      then return (the union')
      else throw (Tagged ''illegal-state/entity-not-found''
                    (''Object failed validation ['' @ entity @ '']'')
                    (case context of Some c \<Rightarrow> c | None \<Rightarrow> ''undefined'')
                    None))"

definition truthy_string :: "string \<Rightarrow> bool" where
  "truthy_string s = (s \<noteq> [])"

definition truthy_object :: "'a \<Rightarrow> bool" where
  "truthy_object v = True"

definition isManagedRuntime :: "world \<Rightarrow> bool" where
  "isManagedRuntime w = truthy (js_or (env w ''GOOGLE_CLOUD_REGION'') (env w ''GAE_SERVICE''))"

definition scopes :: "string list" where
  "scopes = [''https://www.googleapis.com/auth/cloud-platform'',
             ''https://www.googleapis.com/auth/userinfo.email'']"

text \<open>
  In \<open>credentials.client_email || (sourceClient instanceof JWT ? sourceClient.email :
  undefined) || (await fetchEmail(auth))\<close> the call of \<open>fetchEmail\<close> is made only when
  the two operands before it are falsy.
\<close>

definition jwt_email :: "AuthClient \<Rightarrow> string option" where
  "jwt_email c = (case c of JWT e \<Rightarrow> e | _ \<Rightarrow> None)"

definition createIdTokenProvider ::
  "world \<Rightarrow> string \<Rightarrow> string \<Rightarrow> string option \<Rightarrow> ('a process_scheme, IEnhancedIdTokenProvider) eff" where
  "createIdTokenProvider w projectId targetAudience targetPrincipal =
     (let auth = GoogleAuth projectId scopes in
      andThen (await (AuthGetClient auth) (auth_getClient w auth)) (\<lambda>sourceClient.
        if truthy targetPrincipal then
          andThen (emit (Stdout (ProviderType ''impersonation'' targetPrincipal))) (\<lambda>_.
            return (ImpersonatedProvider
                      (Impersonated projectId sourceClient (the targetPrincipal) scopes)))
        else if \<not> isManagedRuntime w then
          andThen (emit (Stdout (ProviderType ''adc/gcloud'' None))) (\<lambda>_.
          andThen (setExitCode 1) (\<lambda>_.
            throw (Tagged ''illegal-access/iap-local'' ''Forbidden IAP from local''
                     ''Use impersonation'' None)))
        else
          andThen (emit (Stdout (ProviderType ''managed'' None))) (\<lambda>_.
          andThen (await (AuthGetCredentials auth) (auth_getCredentials w auth)) (\<lambda>credentials.
            tryCatch
              (andThen
                 (let known = js_or (credentials_client_email credentials) (jwt_email sourceClient)
                  in if truthy known then return (the known) else fetchEmail w auth)
                 (\<lambda>client_email.
                    return (DefaultProvider
                              \<lparr>client_email = client_email, sourceClient = sourceClient\<rparr>)))
              (\<lambda>error.
                 throw (Tagged ''service-account/not-found'' ''Impersonation Needed''
                          ''In this compute context, you MUST use service account impersonation''
                          (Some error)))))))"

text \<open>Reading \<open>.split\<close> of a name that is \<open>null\<close> or \<open>undefined\<close> raises a TypeError.\<close>

definition split_name :: "string option \<Rightarrow> ('s, string list) eff" where
  "split_name n =
     (case n of
        None \<Rightarrow> throw (TypeError ''Cannot read properties of undefined (reading split)'')
      | Some s \<Rightarrow> return (split (CHR ''/'') s))"

definition init ::
  "world \<Rightarrow> string option \<Rightarrow> ('a process_scheme, IEnhancedIdTokenProvider \<times> string) eff" where
  "init w targetPrincipal =
     andThen (assert truthy_string (js_or (env w ''PROJECT_ID'') (env w ''GOOGLE_CLOUD_PROJECT''))
                ''projectId envars'' None) (\<lambda>projectId.
     andThen (await (GetProject projectId) (getProject w projectId)) (\<lambda>project.
     andThen (split_name (project_name project)) (\<lambda>segments.
     andThen (assert truthy_string (pop segments)
                ''ProjectsClient.project.name.projectNumber'' None) (\<lambda>projectNumber.
     andThen (await (ListIdentityAwareProxyClients projectId projectNumber)
                (listIdentityAwareProxyClients w projectId projectNumber)) (\<lambda>clients.
     andThen (assert truthy_object
                (find (\<lambda>v. displayName v = Some ''IAP-App-Engine-app'') clients)
                ''IdentityAwareProxyOAuthServiceClient.find[\"IAP-App-Engine-app\"]'' None)
             (\<lambda>appEngineClient.
     andThen (split_name (client_name appEngineClient)) (\<lambda>segments'.
       let targetAudience = the (pop segments') in
       andThen (createIdTokenProvider w projectId targetAudience targetPrincipal) (\<lambda>provider.
         return (provider, targetAudience)))))))))"

text \<open>The one operation of a provider; the impersonated one is the library's.\<close>

definition provider_fetchIdToken ::
  "world \<Rightarrow> IEnhancedIdTokenProvider \<Rightarrow> string \<Rightarrow> FetchIdTokenOptions option
     \<Rightarrow> ('a process_scheme, string) eff" where
  "provider_fetchIdToken w provider targetAudience options =
     (case provider of
        ImpersonatedProvider imp \<Rightarrow>
          await (ImpersonatedFetchIdToken imp targetAudience options)
            (impersonated_fetchIdToken w imp targetAudience options)
      | DefaultProvider this \<Rightarrow> fetchIdToken w this targetAudience options)"

text \<open>
  \<open>main\<close> settles with a result (\<open>Some\<close>) or never does (\<open>None\<close>), when the parser has
  ended the process with its exit code; what the parser prints then is the library's and
  is not recorded.
\<close>

definition main ::
  "world \<Rightarrow> string list \<Rightarrow> 'a process_scheme \<Rightarrow> (thrown + unit) option \<times> 'a process_scheme" where
  "main w args s =
     (case parseAsync w args of
        Exits code \<Rightarrow> (None, s\<lparr>exitCode := Some code\<rparr>)
      | Rejects e \<Rightarrow> (Some (Inl e), s)
      | Resolves targetPrincipal \<Rightarrow>
          (case andThen (init w targetPrincipal) (\<lambda>(provider, targetAudience).
                andThen (provider_fetchIdToken w provider targetAudience
                           (Some \<lparr>includeEmail = True\<rparr>))
                  (\<lambda>token.
                  emit (Stdout (TokenDump token)))) s of
             (r, s') \<Rightarrow> (Some r, s')))"

text \<open>
  The module's last statement: \<open>main(...).then(...).catch(...)\<close>. Neither callback runs
  when the process has ended inside \<open>main\<close>.
\<close>

definition run :: "world \<Rightarrow> string list \<Rightarrow> 'a process_scheme \<Rightarrow> 'a process_scheme" where
  "run w args s =
     (case main w args s of
        (None, s') \<Rightarrow> s'
      | (Some (Inr _), s') \<Rightarrow> s'\<lparr>trace := trace s' @ [Stdout (Line ''DONE'')]\<rparr>
      | (Some (Inl error), s') \<Rightarrow>
          s'\<lparr>trace := trace s' @ [Stderr (ERROR error)], exitCode := Some 1\<rparr>)"

definition start :: process where
  "start = \<lparr>exitCode = None, trace = []\<rparr>"

section \<open>The second source variant (index.ts, lines 202-382)\<close>

text \<open>
  The older module keeps a module-level constant \<open>cachedAuthorizationHeaderValue\<close>, has
  no managed-runtime check, no \<open>try\<close> in \<open>fetchEmail\<close>, and reads the target principal
  from the first argument. Its state is the process together with the cache entry;
  \<open>RETRY_CONFIG\<close>, \<open>DefaultEnhancedIdTokenProvider\<close> and \<open>assert\<close> are the same text as
  above.
\<close>

record 'a CacheEntry =
  expiresInMilliseconds :: int
  payload :: 'a

record module = process +
  cachedAuthorizationHeaderValue :: "string CacheEntry"

definition module_start :: module where
  "module_start =
     \<lparr>exitCode = None, trace = [],
      cachedAuthorizationHeaderValue = \<lparr>expiresInMilliseconds = 0, payload = []\<rparr>\<rparr>"

definition fetchEmail2 :: "world \<Rightarrow> GoogleAuth \<Rightarrow> (module, string) eff" where
  "fetchEmail2 w auth =
     (let url = ''https://www.googleapis.com/oauth2/v3/userinfo'' in
      andThen (await (AuthGetAccessToken auth) (auth_getAccessToken w auth)) (\<lambda>accessToken.
        let headers = [(''Authorization'', ''Bearer '' @ template accessToken)];
            req = \<lparr>url = url, http_method = None, headers = headers, data = None,
                   retry = True, retryConfig = RETRY_CONFIG\<rparr>
        in andThen (await (AuthRequest auth req) (auth_request w auth req)) (\<lambda>res.
             return (email res))))"

definition createIdTokenProvider2 ::
  "world \<Rightarrow> string \<Rightarrow> string option \<Rightarrow> (module, IEnhancedIdTokenProvider) eff" where
  "createIdTokenProvider2 w projectId targetPrincipal =
     (let auth = GoogleAuth projectId scopes in
      andThen (await (AuthGetClient auth) (auth_getClient w auth)) (\<lambda>sourceClient.
        if truthy targetPrincipal then
          return (ImpersonatedProvider
                    (Impersonated projectId sourceClient (the targetPrincipal) scopes))
        else
          andThen (await (AuthGetCredentials auth) (auth_getCredentials w auth)) (\<lambda>credentials.
            tryCatch
              (andThen
                 (let known = js_or (credentials_client_email credentials) (jwt_email sourceClient)
                  in if truthy known then return (the known) else fetchEmail2 w auth)
                 (\<lambda>client_email.
                    return (DefaultProvider
                              \<lparr>client_email = client_email, sourceClient = sourceClient\<rparr>)))
              (\<lambda>error.
                 throw (Tagged ''service-account/not-found'' ''Impersonation Needed''
                          ''In this compute context, you MUST use service account impersonation''
                          (Some error))))))"

definition init2 ::
  "world \<Rightarrow> string option \<Rightarrow> (module, IEnhancedIdTokenProvider \<times> string) eff" where
  "init2 w targetPrincipal =
     andThen (assert truthy_string (js_or (env w ''PROJECT_ID'') (env w ''GOOGLE_CLOUD_PROJECT''))
                ''projectId envars'' None) (\<lambda>projectId.
     andThen (await (GetProject projectId) (getProject w projectId)) (\<lambda>project.
     andThen (split_name (project_name project)) (\<lambda>segments.
     andThen (assert truthy_string (pop segments)
                ''ProjectsClient.project.name.projectNumber'' None) (\<lambda>projectNumber.
     andThen (await (ListIdentityAwareProxyClients projectId projectNumber)
                (listIdentityAwareProxyClients w projectId projectNumber)) (\<lambda>clients.
     andThen (assert truthy_object
                (find (\<lambda>v. displayName v = Some ''IAP-App-Engine-app'') clients)
                ''IdentityAwareProxyOAuthServiceClient.find[\"IAP-App-Engine-app\"]'' None)
             (\<lambda>appEngineClient.
     andThen (split_name (client_name appEngineClient)) (\<lambda>segments'.
       let targetAudience = the (pop segments') in
       andThen (createIdTokenProvider2 w projectId targetPrincipal) (\<lambda>provider.
         return (provider, targetAudience)))))))))"

definition dumpToken :: "world \<Rightarrow> IEnhancedIdTokenProvider \<Rightarrow> string \<Rightarrow> (module, unit) eff" where
  "dumpToken w provider targetAudience =
     andThen (provider_fetchIdToken w provider targetAudience (Some \<lparr>includeEmail = True\<rparr>))
       (\<lambda>token.
       emit (Stdout (TokenDump token)))"

text \<open>\<open>args.length < 0 ? undefined : args[0]\<close>; \<open>args[0]\<close> of an empty array is \<open>undefined\<close>.\<close>

definition main2 :: "world \<Rightarrow> string list \<Rightarrow> (module, unit) eff" where
  "main2 w args =
     (let targetPrincipal =
            (if int (length args) < 0 then None
             else (case args of [] \<Rightarrow> None | a # _ \<Rightarrow> Some a))
      in andThen (init2 w targetPrincipal) (\<lambda>(provider, targetAudience).
         andThen (provider_fetchIdToken w provider targetAudience (Some \<lparr>includeEmail = True\<rparr>))
           (\<lambda>token.
           emit (Stdout (TokenDump token)))))"

definition run2 :: "world \<Rightarrow> string list \<Rightarrow> module \<Rightarrow> module" where
  "run2 w args s =
     (case main2 w args s of
        (Inr _, s') \<Rightarrow> s'\<lparr>trace := trace s' @ [Stdout (Line ''DONE'')]\<rparr>
      | (Inl error, s') \<Rightarrow> s'\<lparr>trace := trace s' @ [Stderr (ERROR error)], exitCode := Some 1\<rparr>)"

section \<open>What the specification talks about\<close>

text \<open>The trailing path segment of a resource name: what follows its last \<open>/\<close>.\<close>

definition trailing_segment :: "string \<Rightarrow> string" where
  "trailing_segment s = rev (takeWhile (\<lambda>x. x \<noteq> CHR ''/'') (rev s))"

text \<open>The userinfo request, as \<open>fetchEmail\<close> builds it for an access token.\<close>

definition userinfo_request :: "AccessToken \<Rightarrow> RequestOptions" where
  "userinfo_request accessToken =
     \<lparr>url = ''https://www.googleapis.com/oauth2/v3/userinfo'', http_method = None,
      headers = [(''Authorization'', ''Bearer '' @ template accessToken)], data = None,
      retry = True, retryConfig = RETRY_CONFIG\<rparr>"

text \<open>
  The email the userinfo endpoint answers when it is asked: none when the access token
  or the request fails.
\<close>

definition userinfo_email :: "world \<Rightarrow> GoogleAuth \<Rightarrow> string option" where
  "userinfo_email w auth =
     (case auth_getAccessToken w auth of
        Inl _ \<Rightarrow> None
      | Inr accessToken \<Rightarrow>
          (case auth_request w auth (userinfo_request accessToken) of
             Inl _ \<Rightarrow> None
           | Inr res \<Rightarrow> Some (email res)))"

text \<open>
  The caller's email by the specification's priority order: the credentials' email, then
  the JWT's email, then the userinfo answer; the first that is a non-empty string.
\<close>

definition resolved_email :: "world \<Rightarrow> GoogleAuth \<Rightarrow> CredentialBody \<Rightarrow> AuthClient \<Rightarrow> string option" where
  "resolved_email w auth credentials client =
     (case find truthy
             [credentials_client_email credentials,
              (case client of JWT e \<Rightarrow> e | _ \<Rightarrow> None),
              userinfo_email w auth] of
        None \<Rightarrow> None
      | Some e \<Rightarrow> e)"

text \<open>
  Idempotent request methods of HTTP (RFC 9110, section 9.2.2): PUT, DELETE and the safe
  methods GET, HEAD, OPTIONS and TRACE. POST is not one of them.
\<close>

definition idempotent_method :: "string \<Rightarrow> bool" where
  "idempotent_method m = (m \<in> set [''GET'', ''HEAD'', ''OPTIONS'', ''TRACE'', ''PUT'', ''DELETE''])"

text \<open>The requests of a trace that the program's own retry configuration governs.\<close>

fun generateIdToken_requests :: "event list \<Rightarrow> RequestOptions list" where
  "generateIdToken_requests [] = []"
| "generateIdToken_requests (ClientRequest c r # evs) = r # generateIdToken_requests evs"
| "generateIdToken_requests (ev # evs) = generateIdToken_requests evs"

fun userinfo_requests :: "event list \<Rightarrow> RequestOptions list" where
  "userinfo_requests [] = []"
| "userinfo_requests (AuthRequest a r # evs) = r # userinfo_requests evs"
| "userinfo_requests (ev # evs) = userinfo_requests evs"

text \<open>
  A request sent with retries enabled under the module's retry configuration, and the
  events that are requests of the program's own.
\<close>

definition governed :: "RequestOptions \<Rightarrow> bool" where
  "governed r = (retry r \<and> retryConfig r = RETRY_CONFIG)"

definition request_event :: "event \<Rightarrow> bool" where
  "request_event ev =
     (case ev of ClientRequest _ _ \<Rightarrow> True | AuthRequest _ _ \<Rightarrow> True | _ \<Rightarrow> False)"

text \<open>
  \<open>sends g u m\<close>: whatever the state and the answers, the computation \<open>m\<close> only appends
  to the trace, and what it appends holds at most \<open>g\<close> generateIdToken requests and at
  most \<open>u\<close> userinfo requests, each of them governed by the retry configuration.
\<close>

definition sends :: "nat \<Rightarrow> nat \<Rightarrow> ('a process_scheme, 'b) eff \<Rightarrow> bool" where
  "sends g u m =
     (\<forall>s. \<exists>evs. trace (snd (m s)) = trace s @ evs \<and>
        length (generateIdToken_requests evs) \<le> g \<and>
        length (userinfo_requests evs) \<le> u \<and>
        list_all governed (generateIdToken_requests evs) \<and>
        list_all governed (userinfo_requests evs))"

text \<open>
  A computation of the second variant that neither reads nor writes the cache entry:
  started with another entry it does the same and leaves that entry in place.
\<close>

definition ignores_cache :: "(module, 'a) eff \<Rightarrow> bool" where
  "ignores_cache m =
     (\<forall>s c. m (s\<lparr>cachedAuthorizationHeaderValue := c\<rparr>) =
            (case m s of (r, s') \<Rightarrow> (r, s'\<lparr>cachedAuthorizationHeaderValue := c\<rparr>)))"

text \<open>The error kinds the specification recognises, by their type discriminant.\<close>

definition recognized :: "thrown \<Rightarrow> bool" where
  "recognized e =
     (case e of
        Tagged t _ _ _ \<Rightarrow>
          t \<in> set [''illegal-state/entity-not-found'', ''illegal-access/iap-local'',
                    ''service-account/not-found'']
      | _ \<Rightarrow> False)"

text \<open>
  The objects of the three recognised kinds, and the recognised failure of a run, read
  off the specification's description of the kinds: entity-not-found when a required
  lookup is absent (the project in the environment, the project number, the App Engine
  OAuth client); illegal-access when a token is wanted without impersonation outside a
  managed runtime; service-account-not-found when, in the managed path, neither the
  credentials nor a JWT give an email and no access token can be had for the userinfo
  fallback (\<open>provider_failure\<close>, for the last two). There is none when the run succeeds
  or an error of a library ends it.
\<close>

definition entity_not_found :: "string \<Rightarrow> thrown" where
  "entity_not_found entity =
     Tagged ''illegal-state/entity-not-found'' (''Object failed validation ['' @ entity @ '']'')
       ''undefined'' None"

definition illegal_access :: thrown where
  "illegal_access =
     Tagged ''illegal-access/iap-local'' ''Forbidden IAP from local'' ''Use impersonation'' None"

definition service_account_not_found :: "thrown \<Rightarrow> thrown" where
  "service_account_not_found cause =
     Tagged ''service-account/not-found'' ''Impersonation Needed''
       ''In this compute context, you MUST use service account impersonation'' (Some cause)"

definition provider_failure :: "world \<Rightarrow> string \<Rightarrow> string option \<Rightarrow> thrown option" where
  "provider_failure w projectId targetPrincipal =
     (let auth = GoogleAuth projectId scopes
      in if truthy targetPrincipal then None
         else case auth_getClient w auth of
           Inl _ \<Rightarrow> None
         | Inr client \<Rightarrow>
            if \<not> isManagedRuntime w then Some illegal_access
            else case auth_getCredentials w auth of
              Inl _ \<Rightarrow> None
            | Inr credentials \<Rightarrow>
               if truthy (credentials_client_email credentials) \<or> truthy (jwt_email client)
               then None
               else case auth_getAccessToken w auth of
                 Inl cause \<Rightarrow> Some (service_account_not_found cause)
               | Inr _ \<Rightarrow> None)"

definition recognized_failure :: "world \<Rightarrow> string option \<Rightarrow> thrown option" where
  "recognized_failure w targetPrincipal =
     (let named = js_or (env w ''PROJECT_ID'') (env w ''GOOGLE_CLOUD_PROJECT'');
          projectId = the named
      in if \<not> truthy named then Some (entity_not_found ''projectId envars'')
         else case getProject w projectId of
           Inl _ \<Rightarrow> None
         | Inr project \<Rightarrow>
            (case project_name project of
               None \<Rightarrow> None
             | Some pname \<Rightarrow>
                if trailing_segment pname = []
                then Some (entity_not_found ''ProjectsClient.project.name.projectNumber'')
                else case listIdentityAwareProxyClients w projectId (trailing_segment pname) of
                  Inl _ \<Rightarrow> None
                | Inr clients \<Rightarrow>
                   (case find (\<lambda>v. displayName v = Some ''IAP-App-Engine-app'') clients of
                      None \<Rightarrow>
                        Some (entity_not_found
                          ''IdentityAwareProxyOAuthServiceClient.find[\"IAP-App-Engine-app\"]'')
                    | Some appEngineClient \<Rightarrow>
                       if client_name appEngineClient = None then None
                       else provider_failure w projectId targetPrincipal)))"

section \<open>Concrete environments\<close>

text \<open>
  A managed runtime (App Engine) of project \<open>demo\<close>, number 42, whose brand lists two
  OAuth clients; every library call resolves, and the parser ends the process on
  \<open>--version\<close> and on arguments it does not know.
\<close>

definition managed_env :: "string \<Rightarrow> string option" where
  "managed_env k =
     (if k = ''PROJECT_ID'' then Some ''demo''
      else if k = ''GAE_SERVICE'' then Some ''default'' else None)"

definition local_env :: "string \<Rightarrow> string option" where
  "local_env k = (if k = ''GOOGLE_CLOUD_PROJECT'' then Some ''demo'' else None)"

definition brand_clients :: "IdentityAwareProxyClient list" where
  "brand_clients =
     [IdentityAwareProxyClient (Some ''projects/42/brands/42/identityAwareProxyClients/web'')
        (Some ''Web client''),
      IdentityAwareProxyClient (Some ''projects/42/brands/42/identityAwareProxyClients/gae.apps'')
        (Some ''IAP-App-Engine-app'')]"

definition managed_world :: world where
  "managed_world =
     \<lparr>env = managed_env,
      parseAsync = (\<lambda>args. if args = [] then Resolves None
                            else if length args = 2 \<and> hd args = ''--target-principal''
                            then Resolves (Some (args ! 1))
                            else if args = [''--version''] then Exits 0
                            else Exits 1),
      getProject = (\<lambda>projectId. Inr (Project (Some ''projects/42''))),
      listIdentityAwareProxyClients = (\<lambda>projectId projectNumber. Inr brand_clients),
      auth_getClient = (\<lambda>auth. Inr Compute),
      auth_getCredentials = (\<lambda>auth. Inr (CredentialBody (Some ''sa@demo''))),
      auth_getAccessToken = (\<lambda>auth. Inr (TokenString ''ya29'')),
      auth_request = (\<lambda>auth req. Inr \<lparr>email = ''me@demo''\<rparr>),
      client_getAccessToken = (\<lambda>c. Inr ()),
      client_request = (\<lambda>c req. Inr \<lparr>token = ''eyJ''\<rparr>),
      impersonated_fetchIdToken = (\<lambda>imp targetAudience options. Inr ''eyJ'')\<rparr>"

text \<open>The same runtime with credentials that carry no email: userinfo is asked.\<close>

definition userinfo_world :: world where
  "userinfo_world = managed_world\<lparr>auth_getCredentials := (\<lambda>auth. Inr (CredentialBody None))\<rparr>"

text \<open>... where the userinfo request is rejected.\<close>

definition failing_userinfo_world :: world where
  "failing_userinfo_world =
     userinfo_world\<lparr>auth_request := (\<lambda>auth req. Inl (Rejected ''401 Unauthorized''))\<rparr>"

text \<open>... where no access token can be had.\<close>

definition tokenless_world :: world where
  "tokenless_world =
     userinfo_world\<lparr>auth_getAccessToken := (\<lambda>auth. Inl (Rejected ''no access token''))\<rparr>"

text \<open>A brand without the App Engine client, and a process without project variables.\<close>

definition foreign_brand_world :: world where
  "foreign_brand_world =
     managed_world\<lparr>listIdentityAwareProxyClients :=
       (\<lambda>projectId projectNumber. Inr [hd brand_clients])\<rparr>"

definition projectless_world :: world where
  "projectless_world = managed_world\<lparr>env := (\<lambda>k. None)\<rparr>"

text \<open>A machine without default credentials, outside any managed runtime.\<close>

definition credentialless_world :: world where
  "credentialless_world =
     managed_world\<lparr>env := local_env,
       auth_getClient := (\<lambda>auth. Inl (Rejected ''Could not load the default credentials''))\<rparr>"

text \<open>A project whose resource name ends with a slash: its number is empty.\<close>

definition numberless_world :: world where
  "numberless_world = managed_world\<lparr>getProject := (\<lambda>projectId. Inr (Project (Some ''projects/'')))\<rparr>"

section \<open>Auxiliary facts\<close>

lemmas eff_defs =
  andThen_def await_def emit_def return_def throw_def tryCatch_def setExitCode_def

lemma split_nonempty: "split sep s \<noteq> []"
  by (induction s) (auto split: list.splits)

lemma length_split: "length (split sep s) = Suc (length (filter (\<lambda>c. c = sep) s))"
  by (induction s) (auto split: list.splits)

text \<open>The last piece of \<open>s.split(sep)\<close> is what follows the last separator of \<open>s\<close>.\<close>

lemma last_split: "last (split sep s) = rev (takeWhile (\<lambda>x. x \<noteq> sep) (rev s))"
proof (induction s)
  case Nil
  show ?case by simp
next
  case (Cons x xs)
  obtain y ys where ys: "split sep xs = y # ys"
    using split_nonempty[of sep xs] by (cases "split sep xs") auto
  have single: "ys = [] \<longleftrightarrow> (\<forall>c\<in>set xs. c \<noteq> sep)"
    using length_split[of sep xs] ys by (auto simp: filter_empty_conv)
  show ?case
  proof (cases "\<forall>c\<in>set xs. c \<noteq> sep")
    case True
    then have tw: "takeWhile (\<lambda>x. x \<noteq> sep) (rev xs @ [x]) = rev xs @ takeWhile (\<lambda>x. x \<noteq> sep) [x]"
      by (intro takeWhile_append2) simp
    from True have all: "takeWhile (\<lambda>x. x \<noteq> sep) (rev xs) = rev xs"
      by simp
    from True single have "ys = []" by simp
    with Cons ys all have "y = xs" by simp
    with \<open>ys = []\<close> ys tw show ?thesis
      by simp
  next
    case False
    then obtain c where "c \<in> set (rev xs)" and "\<not> c \<noteq> sep"
      by auto
    then have tw: "takeWhile (\<lambda>x. x \<noteq> sep) (rev xs @ [x]) = takeWhile (\<lambda>x. x \<noteq> sep) (rev xs)"
      by (rule takeWhile_append1)
    from False single have "ys \<noteq> []" by simp
    with Cons ys tw show ?thesis
      by simp
  qed
qed

lemma pop_nonempty: "xs \<noteq> [] \<Longrightarrow> pop xs = Some (last xs)"
  by (cases xs rule: rev_cases) (simp_all add: pop_def)

lemma pop_split: "pop (split (CHR ''/'') s) = Some (trailing_segment s)"
  by (simp add: pop_nonempty split_nonempty last_split trailing_segment_def)

text \<open>What \<open>fetchIdToken\<close> of the default provider sends, whatever the answers are.\<close>

lemma fetchIdToken_state:
  "snd (fetchIdToken w this targetAudience options s) =
     s\<lparr>trace := trace s @ ClientGetAccessToken (sourceClient this) #
          (case client_getAccessToken w (sourceClient this) of
             Inl _ \<Rightarrow> []
           | Inr _ \<Rightarrow>
               [ClientRequest (sourceClient this)
                  \<lparr>url = ''https://iamcredentials.googleapis.com/v1/projects/-/serviceAccounts/''
                           @ client_email this @ '':generateIdToken'',
                   http_method = Some ''POST'', headers = [],
                   data = Some \<lparr>delegates = [], audience = targetAudience,
                                 data_includeEmail =
                                   (case options of None \<Rightarrow> True | Some opts \<Rightarrow> includeEmail opts)\<rparr>,
                   retry = True, retryConfig = RETRY_CONFIG\<rparr>])\<rparr>"
  by (simp add: fetchIdToken_def ENDPOINT_def eff_defs Let_def split: sum.splits)

text \<open>
  \<open>init\<close> up to the call of \<open>createIdTokenProvider\<close>, when the project is named in the
  environment and the project lookup and the listing of the brand's clients resolve.
\<close>

lemma init_reaches_provider:
  assumes "js_or (env w ''PROJECT_ID'') (env w ''GOOGLE_CLOUD_PROJECT'') = Some projectId"
    and "projectId \<noteq> []"
    and "getProject w projectId = Inr (Project (Some pname))"
    and "trailing_segment pname \<noteq> []"
    and "listIdentityAwareProxyClients w projectId (trailing_segment pname) = Inr clients"
  shows "init w tp s =
     (case find (\<lambda>v. displayName v = Some ''IAP-App-Engine-app'') clients of
        None \<Rightarrow>
          (Inl (Tagged ''illegal-state/entity-not-found''
             ''Object failed validation [IdentityAwareProxyOAuthServiceClient.find[\"IAP-App-Engine-app\"]]''
             ''undefined'' None),
           s\<lparr>trace := trace s @ [GetProject projectId,
                ListIdentityAwareProxyClients projectId (trailing_segment pname)]\<rparr>)
      | Some c \<Rightarrow>
          (case client_name c of
             None \<Rightarrow>
               (Inl (TypeError ''Cannot read properties of undefined (reading split)''),
                s\<lparr>trace := trace s @ [GetProject projectId,
                     ListIdentityAwareProxyClients projectId (trailing_segment pname)]\<rparr>)
           | Some n \<Rightarrow>
              (case createIdTokenProvider w projectId (trailing_segment n) tp
                      (s\<lparr>trace := trace s @ [GetProject projectId,
                           ListIdentityAwareProxyClients projectId (trailing_segment pname)]\<rparr>) of
                 (Inl e, s') \<Rightarrow> (Inl e, s')
               | (Inr provider, s') \<Rightarrow> (Inr (provider, trailing_segment n), s'))))"
  using assms
  by (simp add: init_def assert_def split_name_def truthy_string_def truthy_object_def pop_split
        eff_defs Let_def split: sum.splits option.splits prod.splits)

lemma init_success:
  assumes "init w tp s = (Inr (provider, aud), s')"
  shows "\<exists>projectId project pname clients c n.
     js_or (env w ''PROJECT_ID'') (env w ''GOOGLE_CLOUD_PROJECT'') = Some projectId \<and>
     getProject w projectId = Inr project \<and> project_name project = Some pname \<and>
     listIdentityAwareProxyClients w projectId (trailing_segment pname) = Inr clients \<and>
     find (\<lambda>v. displayName v = Some ''IAP-App-Engine-app'') clients = Some c \<and>
     client_name c = Some n \<and> aud = trailing_segment n"
  using assms
  by (auto simp: init_def assert_def split_name_def truthy_string_def truthy_object_def pop_split
        eff_defs Let_def split: sum.splits option.splits prod.splits if_splits)

text \<open>Counting the requests of a computation, piece by piece.\<close>

lemma generateIdToken_requests_append:
  "generateIdToken_requests (xs @ ys) = generateIdToken_requests xs @ generateIdToken_requests ys"
  by (induction xs rule: generateIdToken_requests.induct) simp_all

lemma userinfo_requests_append:
  "userinfo_requests (xs @ ys) = userinfo_requests xs @ userinfo_requests ys"
  by (induction xs rule: userinfo_requests.induct) simp_all

lemma sends_mono: "sends g u m \<Longrightarrow> g \<le> g' \<Longrightarrow> u \<le> u' \<Longrightarrow> sends g' u' m"
  unfolding sends_def by (meson le_trans)

lemma sends_return: "sends g u (return a)"
  by (simp add: sends_def return_def)

lemma sends_throw: "sends g u (throw e)"
  by (simp add: sends_def throw_def)

lemma sends_setExitCode: "sends g u (setExitCode n)"
  by (simp add: sends_def setExitCode_def)

lemma sends_emit: "\<not> request_event ev \<Longrightarrow> sends g u (emit ev)"
  by (cases ev) (simp_all add: sends_def emit_def request_event_def)

lemma sends_andThen:
  assumes "sends g1 u1 m" and "\<And>a. sends g2 u2 (f a)"
    and "g1 + g2 \<le> g" and "u1 + u2 \<le> u"
  shows "sends g u (andThen m f)"
  unfolding sends_def
proof
  fix s
  from assms(1) obtain evs1 where 1: "trace (snd (m s)) = trace s @ evs1"
    "length (generateIdToken_requests evs1) \<le> g1" "length (userinfo_requests evs1) \<le> u1"
    "list_all governed (generateIdToken_requests evs1)" "list_all governed (userinfo_requests evs1)"
    unfolding sends_def by blast
  obtain r s' where ms: "m s = (r, s')" by (cases "m s")
  show "\<exists>evs. trace (snd (andThen m f s)) = trace s @ evs \<and>
        length (generateIdToken_requests evs) \<le> g \<and>
        length (userinfo_requests evs) \<le> u \<and>
        list_all governed (generateIdToken_requests evs) \<and>
        list_all governed (userinfo_requests evs)"
  proof (cases r)
    case (Inl e)
    with ms have "snd (andThen m f s) = snd (m s)" by (simp add: andThen_def)
    with 1 assms(3,4) show ?thesis
      by (intro exI[of _ evs1]) simp
  next
    case (Inr a)
    from assms(2)[of a] obtain evs2 where 2: "trace (snd (f a s')) = trace s' @ evs2"
      "length (generateIdToken_requests evs2) \<le> g2" "length (userinfo_requests evs2) \<le> u2"
      "list_all governed (generateIdToken_requests evs2)" "list_all governed (userinfo_requests evs2)"
      unfolding sends_def by blast
    from Inr ms have "snd (andThen m f s) = snd (f a s')" by (simp add: andThen_def)
    with 1 2 ms assms(3,4) show ?thesis
      by (intro exI[of _ "evs1 @ evs2"])
         (simp add: generateIdToken_requests_append userinfo_requests_append)
  qed
qed

lemma sends_tryCatch:
  assumes "sends g1 u1 m" and "\<And>e. sends g2 u2 (h e)"
    and "g1 + g2 \<le> g" and "u1 + u2 \<le> u"
  shows "sends g u (tryCatch m h)"
  unfolding sends_def
proof
  fix s
  from assms(1) obtain evs1 where 1: "trace (snd (m s)) = trace s @ evs1"
    "length (generateIdToken_requests evs1) \<le> g1" "length (userinfo_requests evs1) \<le> u1"
    "list_all governed (generateIdToken_requests evs1)" "list_all governed (userinfo_requests evs1)"
    unfolding sends_def by blast
  obtain r s' where ms: "m s = (r, s')" by (cases "m s")
  show "\<exists>evs. trace (snd (tryCatch m h s)) = trace s @ evs \<and>
        length (generateIdToken_requests evs) \<le> g \<and>
        length (userinfo_requests evs) \<le> u \<and>
        list_all governed (generateIdToken_requests evs) \<and>
        list_all governed (userinfo_requests evs)"
  proof (cases r)
    case (Inr a)
    with ms have "snd (tryCatch m h s) = snd (m s)" by (simp add: tryCatch_def)
    with 1 assms(3,4) show ?thesis
      by (intro exI[of _ evs1]) simp
  next
    case (Inl e)
    from assms(2)[of e] obtain evs2 where 2: "trace (snd (h e s')) = trace s' @ evs2"
      "length (generateIdToken_requests evs2) \<le> g2" "length (userinfo_requests evs2) \<le> u2"
      "list_all governed (generateIdToken_requests evs2)" "list_all governed (userinfo_requests evs2)"
      unfolding sends_def by blast
    from Inl ms have "snd (tryCatch m h s) = snd (h e s')" by (simp add: tryCatch_def)
    with 1 2 ms assms(3,4) show ?thesis
      by (intro exI[of _ "evs1 @ evs2"])
         (simp add: generateIdToken_requests_append userinfo_requests_append)
  qed
qed

lemma sends_quiet_then: "sends 0 0 m \<Longrightarrow> (\<And>a. sends g u (f a)) \<Longrightarrow> sends g u (andThen m f)"
  by (rule sends_andThen[where ?g1.0 = 0 and ?u1.0 = 0 and ?g2.0 = g and ?u2.0 = u]) simp_all

lemma sends_then_quiet: "sends g u m \<Longrightarrow> (\<And>a. sends 0 0 (f a)) \<Longrightarrow> sends g u (andThen m f)"
  by (rule sends_andThen[where ?g1.0 = g and ?u1.0 = u and ?g2.0 = 0 and ?u2.0 = 0]) simp_all

lemma sends_await: "\<not> request_event ev \<Longrightarrow> sends g u (await ev r)"
  by (cases r; cases ev) (simp_all add: sends_def eff_defs request_event_def)

lemma sends_client_request: "governed req \<Longrightarrow> sends (Suc g) u (await (ClientRequest c req) r)"
  by (cases r) (simp_all add: sends_def eff_defs)

lemma sends_auth_request: "governed req \<Longrightarrow> sends g (Suc u) (await (AuthRequest a req) r)"
  by (cases r) (simp_all add: sends_def eff_defs)

lemma sends_assert: "sends g u (assert t v entity context)"
  by (simp add: assert_def sends_throw sends_return)

lemma sends_split_name: "sends g u (split_name n)"
  by (simp add: split_name_def sends_throw sends_return split: option.splits)

lemma sends_if: "sends g u a \<Longrightarrow> sends g u b \<Longrightarrow> sends g u (if c then a else b)"
  by simp

lemma sends_case_prod: "(\<And>a b. sends g u (f a b)) \<Longrightarrow> sends g u (case_prod f p)"
  by (cases p) simp

lemma sends_fetchIdToken: "sends (Suc 0) 0 (fetchIdToken w this targetAudience options)"
  unfolding fetchIdToken_def Let_def
proof (rule sends_quiet_then)
  show "sends 0 0 (await (ClientGetAccessToken (sourceClient this))
          (client_getAccessToken w (sourceClient this)))"
    by (simp add: sends_await request_event_def)
next
  fix a :: unit
  show "sends (Suc 0) 0
          (andThen
            (await
              (ClientRequest (sourceClient this)
                \<lparr>url = ENDPOINT @ ''/v1/'' @ (''projects/-/serviceAccounts/'' @ client_email this)
                         @ '':generateIdToken'',
                 http_method = Some ''POST'', headers = [],
                 data = Some \<lparr>delegates = [], audience = targetAudience,
                   data_includeEmail = case options of None \<Rightarrow> True | Some opts \<Rightarrow> includeEmail opts\<rparr>,
                 retry = True, retryConfig = RETRY_CONFIG\<rparr>)
              (client_request w (sourceClient this)
                \<lparr>url = ENDPOINT @ ''/v1/'' @ (''projects/-/serviceAccounts/'' @ client_email this)
                         @ '':generateIdToken'',
                 http_method = Some ''POST'', headers = [],
                 data = Some \<lparr>delegates = [], audience = targetAudience,
                   data_includeEmail = case options of None \<Rightarrow> True | Some opts \<Rightarrow> includeEmail opts\<rparr>,
                 retry = True, retryConfig = RETRY_CONFIG\<rparr>))
            (\<lambda>res. return (token res)))"
    by (intro sends_then_quiet sends_client_request sends_return) (simp add: governed_def)
qed

lemma sends_provider_fetchIdToken:
  "sends (Suc 0) 0 (provider_fetchIdToken w provider targetAudience options)"
proof (cases provider)
  case (ImpersonatedProvider imp)
  then show ?thesis
    by (simp add: provider_fetchIdToken_def sends_await request_event_def)
next
  case (DefaultProvider this)
  then show ?thesis
    by (simp add: provider_fetchIdToken_def sends_fetchIdToken)
qed

lemma sends_fetchEmail: "sends 0 (Suc 0) (fetchEmail w auth)"
  unfolding fetchEmail_def Let_def
proof (rule sends_quiet_then)
  show "sends 0 0 (await (AuthGetAccessToken auth) (auth_getAccessToken w auth))"
    by (simp add: sends_await request_event_def)
next
  fix accessToken
  let ?req = "\<lparr>url = ''https://www.googleapis.com/oauth2/v3/userinfo'', http_method = None,
                headers = [(''Authorization'', ''Bearer '' @ template accessToken)], data = None,
                retry = True, retryConfig = RETRY_CONFIG\<rparr>"
  have asked: "sends 0 (Suc 0)
      (andThen (await (AuthRequest auth ?req) (auth_request w auth ?req)) (\<lambda>res. return (email res)))"
    by (intro sends_then_quiet sends_auth_request sends_return) (simp add: governed_def)
  have caught: "sends 0 0 (andThen (emit (Stderr (FetchEmailError error))) (\<lambda>_. return []))"
    for error
    by (intro sends_quiet_then sends_emit sends_return) (simp add: request_event_def)
  show "sends 0 (Suc 0)
      (tryCatch
        (andThen (await (AuthRequest auth ?req) (auth_request w auth ?req)) (\<lambda>res. return (email res)))
        (\<lambda>error. andThen (emit (Stderr (FetchEmailError error))) (\<lambda>_. return [])))"
    using asked caught
    by (rule sends_tryCatch[where ?g1.0 = 0 and ?u1.0 = "Suc 0" and ?g2.0 = 0 and ?u2.0 = 0])
       simp_all
qed

lemma sends_createIdTokenProvider:
  "sends 0 (Suc 0) (createIdTokenProvider w projectId targetAudience targetPrincipal)"
proof -
  have managed: "sends 0 (Suc 0)
      (tryCatch (andThen m (\<lambda>client_email. return (P client_email))) (\<lambda>error. throw (E error)))"
    if "sends 0 (Suc 0) m" for m :: "('a process_scheme, string) eff" and P :: "string \<Rightarrow> IEnhancedIdTokenProvider" and E
  proof (rule sends_tryCatch[where ?g1.0 = 0 and ?u1.0 = "Suc 0" and ?g2.0 = 0 and ?u2.0 = 0])
    show "sends 0 (Suc 0) (andThen m (\<lambda>client_email. return (P client_email)))"
      using that by (intro sends_then_quiet sends_return)
  qed (simp_all add: sends_throw)
  show ?thesis
    unfolding createIdTokenProvider_def Let_def
    by (intro sends_quiet_then sends_if managed sends_emit sends_await sends_return sends_throw
          sends_setExitCode sends_fetchEmail)
       (simp_all add: request_event_def)
qed

lemma sends_init: "sends 0 (Suc 0) (init w targetPrincipal)"
  unfolding init_def Let_def
  by (intro sends_quiet_then sends_then_quiet sends_createIdTokenProvider sends_assert sends_split_name
        sends_return sends_await)
     (simp_all add: request_event_def)

lemma sends_main_body:
  "sends (Suc 0) (Suc 0)
      (andThen (init w targetPrincipal)
         (\<lambda>(provider, targetAudience).
            andThen (provider_fetchIdToken w provider targetAudience (Some \<lparr>includeEmail = True\<rparr>))
              (\<lambda>token. emit (Stdout (TokenDump token)))))"
proof -
  have fetch: "sends (Suc 0) 0
      (andThen (provider_fetchIdToken w provider targetAudience (Some \<lparr>includeEmail = True\<rparr>))
         (\<lambda>token. emit (Stdout (TokenDump token))))" for provider targetAudience
    by (intro sends_then_quiet sends_provider_fetchIdToken sends_emit) (simp add: request_event_def)
  show ?thesis
    by (rule sends_andThen[where ?g1.0 = 0 and ?u1.0 = "Suc 0" and ?g2.0 = "Suc 0" and ?u2.0 = 0])
       (simp_all add: sends_init sends_case_prod fetch)
qed

lemma main_sends:
  "\<exists>evs. trace (snd (main w args s)) = trace s @ evs \<and>
     length (generateIdToken_requests evs) \<le> Suc 0 \<and>
     length (userinfo_requests evs) \<le> Suc 0 \<and>
     list_all governed (generateIdToken_requests evs) \<and>
     list_all governed (userinfo_requests evs)"
proof (cases "parseAsync w args")
  case (Resolves targetPrincipal)
  then have "snd (main w args s) =
      snd (andThen (init w targetPrincipal)
         (\<lambda>(provider, targetAudience).
            andThen (provider_fetchIdToken w provider targetAudience (Some \<lparr>includeEmail = True\<rparr>))
              (\<lambda>token. emit (Stdout (TokenDump token)))) s)"
    by (simp add: main_def split: prod.splits)
  moreover from sends_main_body[of w targetPrincipal] obtain evs where
    "trace (snd (andThen (init w targetPrincipal)
         (\<lambda>(provider, targetAudience).
            andThen (provider_fetchIdToken w provider targetAudience (Some \<lparr>includeEmail = True\<rparr>))
              (\<lambda>token. emit (Stdout (TokenDump token)))) s)) = trace s @ evs"
    "length (generateIdToken_requests evs) \<le> Suc 0" "length (userinfo_requests evs) \<le> Suc 0"
    "list_all governed (generateIdToken_requests evs)" "list_all governed (userinfo_requests evs)"
    unfolding sends_def by blast
  ultimately show ?thesis
    by auto
next
  case (Rejects e)
  then show ?thesis
    by (intro exI[of _ "[]"]) (simp add: main_def)
next
  case (Exits code)
  then show ?thesis
    by (intro exI[of _ "[]"]) (simp add: main_def)
qed

text \<open>The cache entry is outside every computation of the second variant.\<close>

lemma ignores_return: "ignores_cache (return a)"
  by (simp add: ignores_cache_def return_def)

lemma ignores_throw: "ignores_cache (throw e)"
  by (simp add: ignores_cache_def throw_def)

lemma ignores_emit: "ignores_cache (emit ev)"
  by (simp add: ignores_cache_def emit_def)

lemma ignores_andThen:
  assumes "ignores_cache m" and "\<And>a. ignores_cache (f a)"
  shows "ignores_cache (andThen m f)"
  unfolding ignores_cache_def
proof (intro allI)
  fix s c
  from assms(1) have m: "m (s\<lparr>cachedAuthorizationHeaderValue := c\<rparr>) =
      (case m s of (r, s') \<Rightarrow> (r, s'\<lparr>cachedAuthorizationHeaderValue := c\<rparr>))"
    by (simp add: ignores_cache_def)
  obtain r s' where ms: "m s = (r, s')" by (cases "m s")
  show "andThen m f (s\<lparr>cachedAuthorizationHeaderValue := c\<rparr>) =
      (case andThen m f s of (r, s') \<Rightarrow> (r, s'\<lparr>cachedAuthorizationHeaderValue := c\<rparr>))"
  proof (cases r)
    case (Inl e)
    with m ms show ?thesis by (simp add: andThen_def)
  next
    case (Inr a)
    from assms(2)[of a] have "f a (s'\<lparr>cachedAuthorizationHeaderValue := c\<rparr>) =
      (case f a s' of (r, s'') \<Rightarrow> (r, s''\<lparr>cachedAuthorizationHeaderValue := c\<rparr>))"
      by (simp add: ignores_cache_def)
    with Inr m ms show ?thesis by (simp add: andThen_def)
  qed
qed

lemma ignores_tryCatch:
  assumes "ignores_cache m" and "\<And>e. ignores_cache (h e)"
  shows "ignores_cache (tryCatch m h)"
  unfolding ignores_cache_def
proof (intro allI)
  fix s c
  from assms(1) have m: "m (s\<lparr>cachedAuthorizationHeaderValue := c\<rparr>) =
      (case m s of (r, s') \<Rightarrow> (r, s'\<lparr>cachedAuthorizationHeaderValue := c\<rparr>))"
    by (simp add: ignores_cache_def)
  obtain r s' where ms: "m s = (r, s')" by (cases "m s")
  show "tryCatch m h (s\<lparr>cachedAuthorizationHeaderValue := c\<rparr>) =
      (case tryCatch m h s of (r, s') \<Rightarrow> (r, s'\<lparr>cachedAuthorizationHeaderValue := c\<rparr>))"
  proof (cases r)
    case (Inr a)
    with m ms show ?thesis by (simp add: tryCatch_def)
  next
    case (Inl e)
    from assms(2)[of e] have "h e (s'\<lparr>cachedAuthorizationHeaderValue := c\<rparr>) =
      (case h e s' of (r, s'') \<Rightarrow> (r, s''\<lparr>cachedAuthorizationHeaderValue := c\<rparr>))"
      by (simp add: ignores_cache_def)
    with Inl m ms show ?thesis by (simp add: tryCatch_def)
  qed
qed

lemma ignores_await: "ignores_cache (await ev r)"
  unfolding await_def
  by (intro ignores_andThen ignores_emit) (simp add: ignores_throw ignores_return split: sum.splits)

lemma ignores_assert: "ignores_cache (assert t u entity context)"
  by (simp add: assert_def ignores_throw ignores_return)

lemma ignores_split_name: "ignores_cache (split_name n)"
  by (simp add: split_name_def ignores_throw ignores_return split: option.splits)

lemma ignores_fetchIdToken: "ignores_cache (fetchIdToken w this targetAudience options)"
  unfolding fetchIdToken_def Let_def
  by (intro ignores_andThen ignores_await ignores_return)

lemma ignores_provider_fetchIdToken:
  "ignores_cache (provider_fetchIdToken w provider targetAudience options)"
  by (cases provider) (simp_all add: provider_fetchIdToken_def ignores_await ignores_fetchIdToken)

lemma ignores_fetchEmail2: "ignores_cache (fetchEmail2 w auth)"
  unfolding fetchEmail2_def Let_def
  by (intro ignores_andThen ignores_await ignores_return)

lemma ignores_createIdTokenProvider2:
  "ignores_cache (createIdTokenProvider2 w projectId targetPrincipal)"
  unfolding createIdTokenProvider2_def Let_def
  by (intro ignores_andThen ignores_await ignores_tryCatch)
     (simp_all add: ignores_return ignores_throw ignores_fetchEmail2 ignores_andThen
        ignores_await ignores_tryCatch)

lemma ignores_init2: "ignores_cache (init2 w targetPrincipal)"
  unfolding init2_def Let_def
  by (intro ignores_andThen ignores_await ignores_assert ignores_split_name
        ignores_createIdTokenProvider2 ignores_return)

lemma ignores_main2: "ignores_cache (main2 w args)"
  unfolding main2_def Let_def
  by (intro ignores_andThen ignores_init2)
     (simp add: split_def ignores_andThen ignores_provider_fetchIdToken ignores_emit)

section \<open>Choice of the provider\<close>

text \<open>
  Claim C2. When a target principal is supplied (a non-empty string: the source tests
  \<open>if (targetPrincipal)\<close>), \<open>createIdTokenProvider\<close> returns the \<open>Impersonated\<close> provider
  built from the source client, whatever the environment variables \<open>e\<close> are; it returns
  nothing else, and fails only when the library's \<open>getClient\<close> rejects.
\<close>

theorem createIdTokenProvider_impersonated:
  assumes "p \<noteq> []"
  shows "createIdTokenProvider (w\<lparr>env := e\<rparr>) projectId targetAudience (Some p) s =
     (case auth_getClient w (GoogleAuth projectId scopes) of
        Inl err \<Rightarrow> (Inl err, s\<lparr>trace := trace s @ [AuthGetClient (GoogleAuth projectId scopes)]\<rparr>)
      | Inr c \<Rightarrow>
          (Inr (ImpersonatedProvider (Impersonated projectId c p scopes)),
           s\<lparr>trace := trace s @ [AuthGetClient (GoogleAuth projectId scopes),
                                  Stdout (ProviderType ''impersonation'' (Some p))]\<rparr>))"
  using assms by (simp add: createIdTokenProvider_def eff_defs Let_def split: sum.splits)

theorem createIdTokenProvider_impersonated_witness:
  "''sa@demo'' \<noteq> [] \<and>
   createIdTokenProvider (managed_world\<lparr>env := local_env\<rparr>) ''demo'' ''gae.apps''
       (Some ''sa@demo'') start =
     (Inr (ImpersonatedProvider (Impersonated ''demo'' Compute ''sa@demo'' scopes)),
      \<lparr>exitCode = None,
       trace = [AuthGetClient (GoogleAuth ''demo'' scopes),
                Stdout (ProviderType ''impersonation'' (Some ''sa@demo''))]\<rparr>) \<and>
   createIdTokenProvider (managed_world\<lparr>env := managed_env\<rparr>) ''demo'' ''gae.apps''
       (Some ''sa@demo'') start =
     (Inr (ImpersonatedProvider (Impersonated ''demo'' Compute ''sa@demo'' scopes)),
      \<lparr>exitCode = None,
       trace = [AuthGetClient (GoogleAuth ''demo'' scopes),
                Stdout (ProviderType ''impersonation'' (Some ''sa@demo''))]\<rparr>)"
  using createIdTokenProvider_impersonated
          [where p = "''sa@demo''" and w = managed_world and e = local_env
             and projectId = "''demo''" and targetAudience = "''gae.apps''" and s = start]
        createIdTokenProvider_impersonated
          [where p = "''sa@demo''" and w = managed_world and e = managed_env
             and projectId = "''demo''" and targetAudience = "''gae.apps''" and s = start]
  by (simp add: managed_world_def start_def)

text \<open>
  Claim C3, as stated, fails: \<open>auth.getClient()\<close> is awaited before the runtime is
  looked at, so on a machine without default credentials, with no target principal and
  neither variable set, the library's rejection is thrown and not the error of type
  \<open>illegal-access/iap-local\<close>.
\<close>

theorem local_run_without_credentials:
  "\<not> truthy None \<and>
   \<not> truthy (env credentialless_world ''GOOGLE_CLOUD_REGION'') \<and>
   \<not> truthy (env credentialless_world ''GAE_SERVICE'') \<and>
   createIdTokenProvider credentialless_world ''demo'' ''gae.apps'' None start =
     (Inl (Rejected ''Could not load the default credentials''),
      \<lparr>exitCode = None, trace = [AuthGetClient (GoogleAuth ''demo'' scopes)]\<rparr>) \<and>
   \<not> recognized (Rejected ''Could not load the default credentials'')"
  by (simp add: createIdTokenProvider_def eff_defs Let_def recognized_def
        credentialless_world_def managed_world_def local_env_def start_def)

text \<open>
  Claim C3, amended. With no target principal (\<open>undefined\<close> or the empty string) and
  neither \<open>GOOGLE_CLOUD_REGION\<close> nor \<open>GAE_SERVICE\<close> set to a non-empty value,
  \<open>createIdTokenProvider\<close> throws the error of type \<open>illegal-access/iap-local\<close> once
  \<open>getClient\<close> has resolved, and the rejection of \<open>getClient\<close> when it rejects. In both
  cases its only calls are \<open>getClient\<close> and at most one \<open>console.dir\<close>: no
  \<open>getCredentials\<close>, no access token, no userinfo request; and the outcome does not
  depend on the client \<open>c\<close>, so its JWT email is not consulted.
\<close>

theorem createIdTokenProvider_local_forbidden:
  assumes "\<not> truthy targetPrincipal"
    and "\<not> truthy (env w ''GOOGLE_CLOUD_REGION'')"
    and "\<not> truthy (env w ''GAE_SERVICE'')"
  shows "createIdTokenProvider w projectId targetAudience targetPrincipal s =
     (case auth_getClient w (GoogleAuth projectId scopes) of
        Inl err \<Rightarrow> (Inl err, s\<lparr>trace := trace s @ [AuthGetClient (GoogleAuth projectId scopes)]\<rparr>)
      | Inr c \<Rightarrow>
          (Inl (Tagged ''illegal-access/iap-local'' ''Forbidden IAP from local''
                  ''Use impersonation'' None),
           s\<lparr>trace := trace s @ [AuthGetClient (GoogleAuth projectId scopes),
                                  Stdout (ProviderType ''adc/gcloud'' None)],
             exitCode := Some 1\<rparr>))"
  using assms
  by (simp add: createIdTokenProvider_def isManagedRuntime_def js_or_def eff_defs Let_def
           split: sum.splits)

theorem createIdTokenProvider_local_forbidden_witness:
  "\<not> truthy None \<and>
   \<not> truthy (env (managed_world\<lparr>env := local_env\<rparr>) ''GOOGLE_CLOUD_REGION'') \<and>
   \<not> truthy (env (managed_world\<lparr>env := local_env\<rparr>) ''GAE_SERVICE'') \<and>
   createIdTokenProvider (managed_world\<lparr>env := local_env\<rparr>) ''demo'' ''gae.apps'' None start =
     (Inl (Tagged ''illegal-access/iap-local'' ''Forbidden IAP from local''
             ''Use impersonation'' None),
      \<lparr>exitCode = Some 1,
       trace = [AuthGetClient (GoogleAuth ''demo'' scopes),
                Stdout (ProviderType ''adc/gcloud'' None)]\<rparr>) \<and>
   createIdTokenProvider (managed_world\<lparr>env := local_env\<rparr>) ''demo'' ''gae.apps'' (Some []) start =
     (Inl (Tagged ''illegal-access/iap-local'' ''Forbidden IAP from local''
             ''Use impersonation'' None),
      \<lparr>exitCode = Some 1,
       trace = [AuthGetClient (GoogleAuth ''demo'' scopes),
                Stdout (ProviderType ''adc/gcloud'' None)]\<rparr>)"
  using createIdTokenProvider_local_forbidden
          [where targetPrincipal = None and w = "managed_world\<lparr>env := local_env\<rparr>"
             and projectId = "''demo''" and targetAudience = "''gae.apps''" and s = start]
        createIdTokenProvider_local_forbidden
          [where targetPrincipal = "Some []" and w = "managed_world\<lparr>env := local_env\<rparr>"
             and projectId = "''demo''" and targetAudience = "''gae.apps''" and s = start]
  by (simp add: managed_world_def local_env_def start_def)

section \<open>Identity resolution in the managed path\<close>

text \<open>
  Claim C1. With no target principal, in a managed runtime, when the source client and
  the credentials are there and an email can be resolved, the provider's email is the
  first non-empty one of: the credentials' \<open>client_email\<close>, the JWT's \<open>email\<close>, the
  userinfo answer. Userinfo is asked only when the first two are empty. The request
  that \<open>fetchIdToken\<close> of this provider sends is a POST to
  \<open>https://iamcredentials.googleapis.com/v1/projects/-/serviceAccounts/<email>:generateIdToken\<close>.
\<close>

theorem managed_provider_targets_resolved_email:
  assumes "\<not> truthy targetPrincipal"
    and "isManagedRuntime w"
    and "auth_getClient w (GoogleAuth projectId scopes) = Inr c"
    and "auth_getCredentials w (GoogleAuth projectId scopes) = Inr credentials"
    and "resolved_email w (GoogleAuth projectId scopes) credentials c = Some account"
  shows "createIdTokenProvider w projectId targetAudience targetPrincipal s =
           (Inr (DefaultProvider \<lparr>client_email = account, sourceClient = c\<rparr>),
            s\<lparr>trace := trace s @
                 [AuthGetClient (GoogleAuth projectId scopes),
                  Stdout (ProviderType ''managed'' None),
                  AuthGetCredentials (GoogleAuth projectId scopes)] @
                 (if truthy (credentials_client_email credentials) \<or> truthy (jwt_email c) then []
                  else (case auth_getAccessToken w (GoogleAuth projectId scopes) of
                          Inl _ \<Rightarrow> []
                        | Inr t \<Rightarrow> [AuthGetAccessToken (GoogleAuth projectId scopes),
                                    AuthRequest (GoogleAuth projectId scopes) (userinfo_request t)]))\<rparr>)
         \<and> snd (fetchIdToken w \<lparr>client_email = account, sourceClient = c\<rparr> audience' options s1) =
             s1\<lparr>trace := trace s1 @ ClientGetAccessToken c #
                 (case client_getAccessToken w c of
                    Inl _ \<Rightarrow> []
                  | Inr _ \<Rightarrow>
                      [ClientRequest c
                         \<lparr>url = ''https://iamcredentials.googleapis.com/v1/projects/-/serviceAccounts/''
                                  @ account @ '':generateIdToken'',
                          http_method = Some ''POST'', headers = [],
                          data = Some \<lparr>delegates = [], audience = audience',
                                        data_includeEmail =
                                          (case options of None \<Rightarrow> True | Some opts \<Rightarrow> includeEmail opts)\<rparr>,
                          retry = True, retryConfig = RETRY_CONFIG\<rparr>])\<rparr>"
proof
  show "createIdTokenProvider w projectId targetAudience targetPrincipal s =
           (Inr (DefaultProvider \<lparr>client_email = account, sourceClient = c\<rparr>),
            s\<lparr>trace := trace s @
                 [AuthGetClient (GoogleAuth projectId scopes),
                  Stdout (ProviderType ''managed'' None),
                  AuthGetCredentials (GoogleAuth projectId scopes)] @
                 (if truthy (credentials_client_email credentials) \<or> truthy (jwt_email c) then []
                  else (case auth_getAccessToken w (GoogleAuth projectId scopes) of
                          Inl _ \<Rightarrow> []
                        | Inr t \<Rightarrow> [AuthGetAccessToken (GoogleAuth projectId scopes),
                                    AuthRequest (GoogleAuth projectId scopes) (userinfo_request t)]))\<rparr>)"
    using assms
    by (auto simp: createIdTokenProvider_def fetchEmail_def resolved_email_def userinfo_email_def
        userinfo_request_def jwt_email_def js_or_def eff_defs Let_def
        split: sum.splits option.splits if_splits AuthClient.splits)
next
  show "snd (fetchIdToken w \<lparr>client_email = account, sourceClient = c\<rparr> audience' options s1) =
             s1\<lparr>trace := trace s1 @ ClientGetAccessToken c #
                 (case client_getAccessToken w c of
                    Inl _ \<Rightarrow> []
                  | Inr _ \<Rightarrow>
                      [ClientRequest c
                         \<lparr>url = ''https://iamcredentials.googleapis.com/v1/projects/-/serviceAccounts/''
                                  @ account @ '':generateIdToken'',
                          http_method = Some ''POST'', headers = [],
                          data = Some \<lparr>delegates = [], audience = audience',
                                        data_includeEmail =
                                          (case options of None \<Rightarrow> True | Some opts \<Rightarrow> includeEmail opts)\<rparr>,
                          retry = True, retryConfig = RETRY_CONFIG\<rparr>])\<rparr>"
    by (simp add: fetchIdToken_state split: sum.splits)
qed

theorem managed_provider_targets_resolved_email_witness:
  "resolved_email userinfo_world (GoogleAuth ''demo'' scopes) (CredentialBody None) Compute =
     Some ''me@demo'' \<and>
   createIdTokenProvider userinfo_world ''demo'' ''gae.apps'' None start =
     (Inr (DefaultProvider \<lparr>client_email = ''me@demo'', sourceClient = Compute\<rparr>),
      \<lparr>exitCode = None,
       trace = [AuthGetClient (GoogleAuth ''demo'' scopes),
                Stdout (ProviderType ''managed'' None),
                AuthGetCredentials (GoogleAuth ''demo'' scopes),
                AuthGetAccessToken (GoogleAuth ''demo'' scopes),
                AuthRequest (GoogleAuth ''demo'' scopes) (userinfo_request (TokenString ''ya29''))]\<rparr>) \<and>
   snd (fetchIdToken userinfo_world \<lparr>client_email = ''me@demo'', sourceClient = Compute\<rparr>
          ''gae.apps'' (Some \<lparr>includeEmail = True\<rparr>) start) =
     \<lparr>exitCode = None,
      trace = [ClientGetAccessToken Compute,
               ClientRequest Compute
                 \<lparr>url = ''https://iamcredentials.googleapis.com/v1/projects/-/serviceAccounts/me@demo:generateIdToken'',
                  http_method = Some ''POST'', headers = [],
                  data = Some \<lparr>delegates = [], audience = ''gae.apps'', data_includeEmail = True\<rparr>,
                  retry = True, retryConfig = RETRY_CONFIG\<rparr>]\<rparr>"
proof -
  have r: "resolved_email userinfo_world (GoogleAuth ''demo'' scopes) (CredentialBody None) Compute =
     Some ''me@demo''"
    by (simp add: resolved_email_def userinfo_email_def userinfo_world_def managed_world_def)
  have m: "isManagedRuntime userinfo_world"
    by (simp add: isManagedRuntime_def js_or_def userinfo_world_def managed_world_def managed_env_def)
  have t: "\<not> truthy None" by simp
  have c: "auth_getClient userinfo_world (GoogleAuth ''demo'' scopes) = Inr Compute"
    by (simp add: userinfo_world_def managed_world_def)
  have cr: "auth_getCredentials userinfo_world (GoogleAuth ''demo'' scopes) = Inr (CredentialBody None)"
    by (simp add: userinfo_world_def managed_world_def)
  show ?thesis
    using managed_provider_targets_resolved_email[OF t m c cr r,
            where targetAudience = "''gae.apps''" and s = start and audience' = "''gae.apps''"
              and options = "Some \<lparr>includeEmail = True\<rparr>" and ?s1.0 = start] r
    by (simp add: start_def jwt_email_def userinfo_world_def managed_world_def)
qed

section \<open>Failures of init\<close>

text \<open>
  Claim C6, as stated, fails: with both project variables unset, the run with the
  argument \<open>--version\<close> ends inside the parser with exit code 0; \<open>init\<close> is not called
  and no error is printed.
\<close>

theorem parser_exit_without_project:
  "\<not> truthy (env projectless_world ''PROJECT_ID'') \<and>
   \<not> truthy (env projectless_world ''GOOGLE_CLOUD_PROJECT'') \<and>
   parseAsync projectless_world [''--version''] = Exits 0 \<and>
   main projectless_world [''--version''] start = (None, \<lparr>exitCode = Some 0, trace = []\<rparr>) \<and>
   run projectless_world [''--version''] start = \<lparr>exitCode = Some 0, trace = []\<rparr>"
  by (simp add: run_def main_def projectless_world_def managed_world_def start_def)

text \<open>
  Claim C6, amended. When \<open>PROJECT_ID\<close> and \<open>GOOGLE_CLOUD_PROJECT\<close> are both unset or
  empty and the parser does not end the process itself, \<open>init\<close> (with whatever principal
  it is called) throws the entity-not-found error and leaves the state as it found it:
  no call has left the program. The run prints one error (the parser's, should it
  reject, and this one otherwise) and ends with exit code 1; no request to Resource
  Manager, IAP, IAM credentials or userinfo appears in its trace.
\<close>

theorem init_without_project:
  assumes "\<not> truthy (env w ''PROJECT_ID'')" and "\<not> truthy (env w ''GOOGLE_CLOUD_PROJECT'')"
    and "\<forall>code. parseAsync w args \<noteq> Exits code"
  shows "init w targetPrincipal s =
           (Inl (Tagged ''illegal-state/entity-not-found''
                   ''Object failed validation [projectId envars]'' ''undefined'' None), s)
         \<and> run w args s =
             s\<lparr>trace := trace s @
                  [Stderr (ERROR (case parseAsync w args of
                                    Rejects e \<Rightarrow> e
                                  | _ \<Rightarrow> Tagged ''illegal-state/entity-not-found''
                                      ''Object failed validation [projectId envars]'' ''undefined'' None))],
               exitCode := Some 1\<rparr>"
proof -
  have i: "init w tp s =
           (Inl (Tagged ''illegal-state/entity-not-found''
                   ''Object failed validation [projectId envars]'' ''undefined'' None), s)" for tp
    using assms(1,2)
    by (cases "env w ''PROJECT_ID''"; cases "env w ''GOOGLE_CLOUD_PROJECT''")
       (simp_all add: init_def assert_def js_or_def truthy_string_def eff_defs)
  have "run w args s =
             s\<lparr>trace := trace s @
                  [Stderr (ERROR (case parseAsync w args of
                                    Rejects e \<Rightarrow> e
                                  | _ \<Rightarrow> Tagged ''illegal-state/entity-not-found''
                                      ''Object failed validation [projectId envars]'' ''undefined'' None))],
               exitCode := Some 1\<rparr>"
  proof (cases "parseAsync w args")
    case (Resolves tp)
    then show ?thesis
      by (simp add: i run_def main_def eff_defs)
  next
    case (Rejects e)
    then show ?thesis
      by (simp add: run_def main_def)
  next
    case (Exits code)
    with assms(3) show ?thesis
      by simp
  qed
  with i show ?thesis
    by simp
qed

theorem init_without_project_witness:
  "\<not> truthy (env projectless_world ''PROJECT_ID'') \<and>
   \<not> truthy (env projectless_world ''GOOGLE_CLOUD_PROJECT'') \<and>
   parseAsync projectless_world [] = Resolves None \<and>
   init projectless_world None start =
     (Inl (Tagged ''illegal-state/entity-not-found''
             ''Object failed validation [projectId envars]'' ''undefined'' None), start) \<and>
   run projectless_world [] start =
     \<lparr>exitCode = Some 1,
      trace = [Stderr (ERROR (Tagged ''illegal-state/entity-not-found''
                 ''Object failed validation [projectId envars]'' ''undefined'' None))]\<rparr>"
proof -
  have 1: "\<not> truthy (env projectless_world ''PROJECT_ID'')"
    and 2: "\<not> truthy (env projectless_world ''GOOGLE_CLOUD_PROJECT'')"
    by (simp_all add: projectless_world_def)
  have p: "parseAsync projectless_world [] = Resolves None"
    by (simp add: projectless_world_def managed_world_def)
  then have 3: "\<forall>code. parseAsync projectless_world [] \<noteq> Exits code"
    by simp
  show ?thesis
    using init_without_project[OF 1 2 3, where targetPrincipal = None and s = start] 1 2 p
    by (simp add: start_def)
qed

text \<open>
  Claim C5. When the listing of the brand's clients has been obtained and none of them
  has the display name \<open>IAP-App-Engine-app\<close>, \<open>init\<close> throws the entity-not-found
  error; the run has made the project lookup and the listing and nothing else (no
  provider is built, no token is fetched), prints the error and ends with exit code 1.
\<close>

theorem init_without_app_engine_client:
  assumes "js_or (env w ''PROJECT_ID'') (env w ''GOOGLE_CLOUD_PROJECT'') = Some projectId"
    and "projectId \<noteq> []"
    and "getProject w projectId = Inr (Project (Some pname))"
    and "trailing_segment pname \<noteq> []"
    and "listIdentityAwareProxyClients w projectId (trailing_segment pname) = Inr clients"
    and "\<forall>c \<in> set clients. displayName c \<noteq> Some ''IAP-App-Engine-app''"
    and "parseAsync w args = Resolves targetPrincipal"
  shows "init w targetPrincipal s =
          (Inl (Tagged ''illegal-state/entity-not-found''
             ''Object failed validation [IdentityAwareProxyOAuthServiceClient.find[\"IAP-App-Engine-app\"]]''
             ''undefined'' None),
           s\<lparr>trace := trace s @ [GetProject projectId,
                ListIdentityAwareProxyClients projectId (trailing_segment pname)]\<rparr>)
       \<and> run w args s =
           s\<lparr>trace := trace s @ [GetProject projectId,
                ListIdentityAwareProxyClients projectId (trailing_segment pname),
                Stderr (ERROR (Tagged ''illegal-state/entity-not-found''
             ''Object failed validation [IdentityAwareProxyOAuthServiceClient.find[\"IAP-App-Engine-app\"]]''
             ''undefined'' None))],
             exitCode := Some 1\<rparr>"
proof -
  have "find (\<lambda>v. displayName v = Some ''IAP-App-Engine-app'') clients = None"
    using assms(6) by (simp add: find_None_iff)
  then have i: "init w targetPrincipal s =
          (Inl (Tagged ''illegal-state/entity-not-found''
             ''Object failed validation [IdentityAwareProxyOAuthServiceClient.find[\"IAP-App-Engine-app\"]]''
             ''undefined'' None),
           s\<lparr>trace := trace s @ [GetProject projectId,
                ListIdentityAwareProxyClients projectId (trailing_segment pname)]\<rparr>)"
    using init_reaches_provider[OF assms(1-5), of targetPrincipal s] by simp
  show ?thesis
    using assms(7) by (simp add: i run_def main_def eff_defs)
qed

theorem init_without_app_engine_client_witness:
  "list_all (\<lambda>c. displayName c \<noteq> Some ''IAP-App-Engine-app'') [hd brand_clients] \<and>
   init foreign_brand_world None start =
     (Inl (Tagged ''illegal-state/entity-not-found''
        ''Object failed validation [IdentityAwareProxyOAuthServiceClient.find[\"IAP-App-Engine-app\"]]''
        ''undefined'' None),
      \<lparr>exitCode = None,
       trace = [GetProject ''demo'', ListIdentityAwareProxyClients ''demo'' ''42'']\<rparr>) \<and>
   run foreign_brand_world [] start =
     \<lparr>exitCode = Some 1,
      trace = [GetProject ''demo'', ListIdentityAwareProxyClients ''demo'' ''42'',
        Stderr (ERROR (Tagged ''illegal-state/entity-not-found''
          ''Object failed validation [IdentityAwareProxyOAuthServiceClient.find[\"IAP-App-Engine-app\"]]''
          ''undefined'' None))]\<rparr>"
proof -
  have ts: "trailing_segment ''projects/42'' = ''42''"
    by (simp add: trailing_segment_def)
  have 1: "js_or (env foreign_brand_world ''PROJECT_ID'') (env foreign_brand_world ''GOOGLE_CLOUD_PROJECT'')
             = Some ''demo''"
    by (simp add: js_or_def foreign_brand_world_def managed_world_def managed_env_def)
  have 2: "''demo'' \<noteq> []" by simp
  have 3: "getProject foreign_brand_world ''demo'' = Inr (Project (Some ''projects/42''))"
    by (simp add: foreign_brand_world_def managed_world_def)
  have 4: "trailing_segment ''projects/42'' \<noteq> []"
    by (simp add: ts)
  have 5: "listIdentityAwareProxyClients foreign_brand_world ''demo'' (trailing_segment ''projects/42'')
             = Inr [hd brand_clients]"
    by (simp add: foreign_brand_world_def managed_world_def)
  have 6: "\<forall>c \<in> set [hd brand_clients]. displayName c \<noteq> Some ''IAP-App-Engine-app''"
    by (simp add: brand_clients_def)
  have 7: "parseAsync foreign_brand_world [] = Resolves None"
    by (simp add: foreign_brand_world_def managed_world_def)
  show ?thesis
    using init_without_app_engine_client[OF 1 2 3 4 5 6 7, of start] 6
    by (simp add: ts start_def)
qed

section \<open>The audience\<close>

text \<open>
  Claim C4. In every run in which \<open>main\<close> succeeds, the brand's clients were listed, the
  first of them whose display name is \<open>IAP-App-Engine-app\<close> has a resource name, and the
  audience that \<open>main\<close> hands to the provider's \<open>fetchIdToken\<close> (the second component of
  what \<open>init\<close> returned) is the part of that name after its last \<open>/\<close>; the run is
  \<open>init\<close>, this one call of \<open>fetchIdToken\<close> and the printing of the token.
\<close>

theorem audience_is_trailing_segment_of_client_name:
  assumes "main w args s = (Some (Inr u), s')"
  shows "\<exists>targetPrincipal projectId project pname clients appEngineClient name provider s1 idToken s2.
     parseAsync w args = Resolves targetPrincipal \<and>
     js_or (env w ''PROJECT_ID'') (env w ''GOOGLE_CLOUD_PROJECT'') = Some projectId \<and>
     getProject w projectId = Inr project \<and> project_name project = Some pname \<and>
     listIdentityAwareProxyClients w projectId (trailing_segment pname) = Inr clients \<and>
     find (\<lambda>v. displayName v = Some ''IAP-App-Engine-app'') clients = Some appEngineClient \<and>
     client_name appEngineClient = Some name \<and>
     init w targetPrincipal s = (Inr (provider, trailing_segment name), s1) \<and>
     provider_fetchIdToken w provider (trailing_segment name) (Some \<lparr>includeEmail = True\<rparr>) s1 =
       (Inr idToken, s2) \<and>
     s' = s2\<lparr>trace := trace s2 @ [Stdout (TokenDump idToken)]\<rparr>"
proof -
  from assms obtain targetPrincipal where p: "parseAsync w args = Resolves targetPrincipal"
    by (cases "parseAsync w args") (simp_all add: main_def)
  with assms have body:
    "andThen (init w targetPrincipal) (\<lambda>(provider, targetAudience).
       andThen (provider_fetchIdToken w provider targetAudience (Some \<lparr>includeEmail = True\<rparr>))
         (\<lambda>token. emit (Stdout (TokenDump token)))) s = (Inr u, s')"
    by (simp add: main_def split: prod.splits)
  obtain r s1 where i: "init w targetPrincipal s = (r, s1)"
    by (cases "init w targetPrincipal s")
  with body obtain provider aud where r: "r = Inr (provider, aud)"
    by (cases r) (auto simp: eff_defs)
  obtain r2 s2 where f: "provider_fetchIdToken w provider aud (Some \<lparr>includeEmail = True\<rparr>) s1 = (r2, s2)"
    by (cases "provider_fetchIdToken w provider aud (Some \<lparr>includeEmail = True\<rparr>) s1")
  with body i r obtain idToken where t: "r2 = Inr idToken"
    by (cases r2) (auto simp: eff_defs)
  from init_success[OF i[unfolded r]] obtain projectId project pname clients c n where
    "js_or (env w ''PROJECT_ID'') (env w ''GOOGLE_CLOUD_PROJECT'') = Some projectId"
    "getProject w projectId = Inr project" "project_name project = Some pname"
    "listIdentityAwareProxyClients w projectId (trailing_segment pname) = Inr clients"
    "find (\<lambda>v. displayName v = Some ''IAP-App-Engine-app'') clients = Some c"
    "client_name c = Some n" "aud = trailing_segment n"
    by blast
  moreover from body i r f t have "s' = s2\<lparr>trace := trace s2 @ [Stdout (TokenDump idToken)]\<rparr>"
    by (simp add: eff_defs)
  ultimately show ?thesis
    using p i r f t by blast
qed

theorem audience_is_trailing_segment_of_client_name_witness:
  "fst (main managed_world [] start) = Some (Inr ()) \<and>
   find (\<lambda>v. displayName v = Some ''IAP-App-Engine-app'') brand_clients = Some (brand_clients ! 1) \<and>
   trailing_segment ''projects/42/brands/42/identityAwareProxyClients/gae.apps'' = ''gae.apps'' \<and>
   (\<exists>targetPrincipal projectId project pname clients appEngineClient name provider s1 idToken s2.
     parseAsync managed_world [] = Resolves targetPrincipal \<and>
     js_or (env managed_world ''PROJECT_ID'') (env managed_world ''GOOGLE_CLOUD_PROJECT'') = Some projectId \<and>
     getProject managed_world projectId = Inr project \<and> project_name project = Some pname \<and>
     listIdentityAwareProxyClients managed_world projectId (trailing_segment pname) = Inr clients \<and>
     find (\<lambda>v. displayName v = Some ''IAP-App-Engine-app'') clients = Some appEngineClient \<and>
     client_name appEngineClient = Some name \<and>
     init managed_world targetPrincipal start = (Inr (provider, trailing_segment name), s1) \<and>
     provider_fetchIdToken managed_world provider (trailing_segment name) (Some \<lparr>includeEmail = True\<rparr>) s1 =
       (Inr idToken, s2) \<and>
     snd (main managed_world [] start) = s2\<lparr>trace := trace s2 @ [Stdout (TokenDump idToken)]\<rparr>)"
proof -
  have ts: "trailing_segment ''projects/42/brands/42/identityAwareProxyClients/gae.apps'' = ''gae.apps''"
    by (simp add: trailing_segment_def)
  have fd: "find (\<lambda>v. displayName v = Some ''IAP-App-Engine-app'') brand_clients = Some (brand_clients ! 1)"
    by (simp add: brand_clients_def)
  have m: "fst (main managed_world [] (start :: process)) = Some (Inr ())"
    by (simp add: main_def init_def createIdTokenProvider_def provider_fetchIdToken_def
          fetchIdToken_def assert_def split_name_def pop_def truthy_string_def truthy_object_def
          isManagedRuntime_def js_or_def eff_defs Let_def managed_world_def managed_env_def
          brand_clients_def)
  then have "main managed_world [] start = (Some (Inr ()), snd (main managed_world [] start))"
    by (simp add: prod_eq_iff)
  from audience_is_trailing_segment_of_client_name[OF this] m fd ts show ?thesis
    by blast
qed

section \<open>Retries\<close>

text \<open>
  Claim C7, as stated, fails: the claim calls every method of the retry allowlist
  idempotent-safe, and the allowlist names \<open>POST\<close>, which HTTP does not count among
  the idempotent methods.
\<close>

theorem retry_allowlist_not_idempotent:
  "''POST'' \<in> set (httpMethodsToRetry RETRY_CONFIG) \<and> \<not> idempotent_method ''POST''
   \<and> \<not> list_all idempotent_method (httpMethodsToRetry RETRY_CONFIG)"
  by (simp add: RETRY_CONFIG_def idempotent_method_def)

text \<open>
  Claim C7, amended. The retry allowlist is \<open>GET\<close>, \<open>PUT\<close>, \<open>POST\<close>, \<open>HEAD\<close>,
  \<open>OPTIONS\<close>, \<open>DELETE\<close>: all of them idempotent but \<open>POST\<close>. The program itself never
  repeats a request: in every run at most one generateIdToken request and at most one
  userinfo request are sent, each with retries enabled under this allowlist.
\<close>

theorem retry_allowlist_and_single_requests:
  "httpMethodsToRetry RETRY_CONFIG = [''GET'', ''PUT'', ''POST'', ''HEAD'', ''OPTIONS'', ''DELETE'']
   \<and> filter (\<lambda>m. \<not> idempotent_method m) (httpMethodsToRetry RETRY_CONFIG) = [''POST'']
   \<and> length (generateIdToken_requests (trace (run w args start))) \<le> 1
   \<and> length (userinfo_requests (trace (run w args start))) \<le> 1
   \<and> list_all governed (generateIdToken_requests (trace (run w args start)))
   \<and> list_all governed (userinfo_requests (trace (run w args start)))"
proof -
  have allow: "httpMethodsToRetry RETRY_CONFIG = [''GET'', ''PUT'', ''POST'', ''HEAD'', ''OPTIONS'', ''DELETE'']"
    "filter (\<lambda>m. \<not> idempotent_method m) (httpMethodsToRetry RETRY_CONFIG) = [''POST'']"
    by (simp_all add: RETRY_CONFIG_def idempotent_method_def)
  from main_sends[of w args start] obtain evs where evs:
    "trace (snd (main w args start)) = trace start @ evs"
    "length (generateIdToken_requests evs) \<le> Suc 0" "length (userinfo_requests evs) \<le> Suc 0"
    "list_all governed (generateIdToken_requests evs)" "list_all governed (userinfo_requests evs)"
    by blast
  obtain r s' where m: "main w args start = (r, s')" by (cases "main w args start")
  with evs(1) have s': "trace s' = evs" by (simp add: start_def)
  have "\<exists>printed. trace (run w args start) = evs @ printed \<and>
      generateIdToken_requests printed = [] \<and> userinfo_requests printed = []"
  proof (cases r)
    case None
    with m s' show ?thesis
      by (intro exI[of _ "[]"]) (simp add: run_def)
  next
    case (Some settled)
    with m s' show ?thesis
      by (cases settled) (simp_all add: run_def)
  qed
  then obtain printed where printed: "trace (run w args start) = evs @ printed"
    "generateIdToken_requests printed = []" "userinfo_requests printed = []"
    by blast
  with evs allow show ?thesis
    by (simp add: generateIdToken_requests_append userinfo_requests_append)
qed

theorem retry_allowlist_and_single_requests_witness:
  "generateIdToken_requests (trace (run userinfo_world [] start)) =
     [\<lparr>url = ''https://iamcredentials.googleapis.com/v1/projects/-/serviceAccounts/me@demo:generateIdToken'',
       http_method = Some ''POST'', headers = [],
       data = Some \<lparr>delegates = [], audience = ''gae.apps'', data_includeEmail = True\<rparr>,
       retry = True, retryConfig = RETRY_CONFIG\<rparr>] \<and>
   userinfo_requests (trace (run userinfo_world [] start)) =
     [userinfo_request (TokenString ''ya29'')] \<and>
   length (generateIdToken_requests (trace (run userinfo_world [] start))) \<le> 1 \<and>
   length (userinfo_requests (trace (run userinfo_world [] start))) \<le> 1 \<and>
   list_all governed (generateIdToken_requests (trace (run userinfo_world [] start))) \<and>
   list_all governed (userinfo_requests (trace (run userinfo_world [] start)))"
proof -
  have t: "trace (run userinfo_world [] start) =
    [GetProject ''demo'', ListIdentityAwareProxyClients ''demo'' ''42'',
     AuthGetClient (GoogleAuth ''demo'' scopes),
     Stdout (ProviderType ''managed'' None),
     AuthGetCredentials (GoogleAuth ''demo'' scopes),
     AuthGetAccessToken (GoogleAuth ''demo'' scopes),
     AuthRequest (GoogleAuth ''demo'' scopes) (userinfo_request (TokenString ''ya29'')),
     ClientGetAccessToken Compute,
     ClientRequest Compute
       \<lparr>url = ''https://iamcredentials.googleapis.com/v1/projects/-/serviceAccounts/me@demo:generateIdToken'',
        http_method = Some ''POST'', headers = [],
        data = Some \<lparr>delegates = [], audience = ''gae.apps'', data_includeEmail = True\<rparr>,
        retry = True, retryConfig = RETRY_CONFIG\<rparr>,
     Stdout (TokenDump ''eyJ''), Stdout (Line ''DONE'')]"
    by (simp add: run_def main_def init_def createIdTokenProvider_def fetchEmail_def
          provider_fetchIdToken_def fetchIdToken_def assert_def split_name_def pop_def
          truthy_string_def truthy_object_def isManagedRuntime_def js_or_def jwt_email_def
          eff_defs Let_def ENDPOINT_def userinfo_request_def trailing_segment_def
          userinfo_world_def managed_world_def managed_env_def brand_clients_def start_def)
  show ?thesis
    using retry_allowlist_and_single_requests[of userinfo_world "[]"]
    by (simp add: t)
qed

section \<open>Errors\<close>

text \<open>
  Where the program throws, and that nothing under \<open>init\<close> intercepts what it throws:
  when the answers of the environment make a recognised failure, \<open>init\<close> ends with
  exactly that object.
\<close>

lemma createIdTokenProvider_failure:
  assumes "provider_failure w projectId targetPrincipal = Some e"
  shows "fst (createIdTokenProvider w projectId targetAudience targetPrincipal s) = Inl e"
  using assms
  by (auto simp: provider_failure_def illegal_access_def service_account_not_found_def
        createIdTokenProvider_def fetchEmail_def js_or_def eff_defs Let_def
      split: sum.splits if_splits)

lemma init_recognized_failure:
  assumes "recognized_failure w targetPrincipal = Some e"
  shows "fst (init w targetPrincipal s) = Inl e"
proof (cases "truthy (js_or (env w ''PROJECT_ID'') (env w ''GOOGLE_CLOUD_PROJECT''))")
  case False
  with assms have e: "e = entity_not_found ''projectId envars''"
    by (simp add: recognized_failure_def Let_def)
  from False show ?thesis
    by (cases "js_or (env w ''PROJECT_ID'') (env w ''GOOGLE_CLOUD_PROJECT'')")
       (simp_all add: e entity_not_found_def init_def assert_def truthy_string_def eff_defs)
next
  case True
  then obtain projectId where named:
    "js_or (env w ''PROJECT_ID'') (env w ''GOOGLE_CLOUD_PROJECT'') = Some projectId"
    "projectId \<noteq> []"
    by (cases "js_or (env w ''PROJECT_ID'') (env w ''GOOGLE_CLOUD_PROJECT'')") auto
  with assms obtain pname where project: "getProject w projectId = Inr (Project (Some pname))"
    by (cases "getProject w projectId"; cases "projr (getProject w projectId)")
       (auto simp: recognized_failure_def Let_def split: option.splits)
  show ?thesis
  proof (cases "trailing_segment pname = []")
    case True
    with assms named project
    have e: "e = entity_not_found ''ProjectsClient.project.name.projectNumber''"
      by (simp add: recognized_failure_def Let_def)
    from named project True show ?thesis
      by (simp add: e entity_not_found_def init_def assert_def split_name_def pop_split
            truthy_string_def eff_defs)
  next
    case False
    with assms named project obtain clients where listed:
      "listIdentityAwareProxyClients w projectId (trailing_segment pname) = Inr clients"
      by (cases "listIdentityAwareProxyClients w projectId (trailing_segment pname)")
         (auto simp: recognized_failure_def Let_def)
    note reached = init_reaches_provider[OF named project False listed, of targetPrincipal s]
    show ?thesis
    proof (cases "find (\<lambda>v. displayName v = Some ''IAP-App-Engine-app'') clients")
      case None
      with assms named project False listed
      have "e = entity_not_found ''IdentityAwareProxyOAuthServiceClient.find[\"IAP-App-Engine-app\"]''"
        by (simp add: recognized_failure_def Let_def)
      with reached None show ?thesis
        by (simp add: entity_not_found_def)
    next
      case (Some appEngineClient)
      with assms named project False listed obtain name where
        name: "client_name appEngineClient = Some name"
        and failure: "provider_failure w projectId targetPrincipal = Some e"
        by (cases "client_name appEngineClient") (auto simp: recognized_failure_def Let_def)
      from createIdTokenProvider_failure[OF failure]
      have "fst (createIdTokenProvider w projectId (trailing_segment name) targetPrincipal
                   (s\<lparr>trace := trace s @ [GetProject projectId,
                        ListIdentityAwareProxyClients projectId (trailing_segment pname)]\<rparr>)) = Inl e" .
      with reached Some name show ?thesis
        by (simp split: prod.splits)
    qed
  qed
qed

lemma recognized_failure_kind:
  assumes "recognized_failure w targetPrincipal = Some e"
  shows "recognized e"
  using assms
  by (auto simp: recognized_failure_def provider_failure_def entity_not_found_def
        illegal_access_def service_account_not_found_def recognized_def Let_def
      split: sum.splits option.splits if_splits)

text \<open>
  And \<open>init\<close> fails in no other way: what it throws is the recognised failure of the
  run, or the TypeError of a missing name, or the rejection of a library call that no
  \<open>try\<close> encloses.
\<close>

lemma createIdTokenProvider_fails_only_so:
  assumes "fst (createIdTokenProvider w projectId targetAudience targetPrincipal s) = Inl e"
  shows "provider_failure w projectId targetPrincipal = Some e
       \<or> auth_getClient w (GoogleAuth projectId scopes) = Inl e
       \<or> auth_getCredentials w (GoogleAuth projectId scopes) = Inl e"
  using assms
  by (auto simp: provider_failure_def illegal_access_def service_account_not_found_def
        createIdTokenProvider_def fetchEmail_def js_or_def eff_defs Let_def
      split: sum.splits if_splits)

lemma init_fails_only_so:
  assumes "fst (init w targetPrincipal s) = Inl e"
  shows "recognized_failure w targetPrincipal = Some e
       \<or> e = TypeError ''Cannot read properties of undefined (reading split)''
       \<or> (\<exists>projectId. getProject w projectId = Inl e)
       \<or> (\<exists>projectId projectNumber. listIdentityAwareProxyClients w projectId projectNumber = Inl e)
       \<or> (\<exists>auth. auth_getClient w auth = Inl e)
       \<or> (\<exists>auth. auth_getCredentials w auth = Inl e)"
proof (cases "truthy (js_or (env w ''PROJECT_ID'') (env w ''GOOGLE_CLOUD_PROJECT''))")
  case False
  then have "recognized_failure w targetPrincipal = Some (entity_not_found ''projectId envars'')"
    by (simp add: recognized_failure_def Let_def)
  moreover from False have "fst (init w targetPrincipal s) = Inl (entity_not_found ''projectId envars'')"
    by (cases "js_or (env w ''PROJECT_ID'') (env w ''GOOGLE_CLOUD_PROJECT'')")
       (simp_all add: entity_not_found_def init_def assert_def truthy_string_def eff_defs)
  ultimately show ?thesis
    using assms by simp
next
  case True
  then obtain projectId where named:
    "js_or (env w ''PROJECT_ID'') (env w ''GOOGLE_CLOUD_PROJECT'') = Some projectId"
    "projectId \<noteq> []"
    by (cases "js_or (env w ''PROJECT_ID'') (env w ''GOOGLE_CLOUD_PROJECT'')") auto
  show ?thesis
  proof (cases "getProject w projectId")
    case (Inl rejection)
    with named have "fst (init w targetPrincipal s) = Inl rejection"
      by (simp add: init_def assert_def truthy_string_def eff_defs)
    with assms Inl show ?thesis
      by auto
  next
    case (Inr project)
    show ?thesis
    proof (cases "project_name project")
      case None
      with named Inr have "fst (init w targetPrincipal s) =
          Inl (TypeError ''Cannot read properties of undefined (reading split)'')"
        by (simp add: init_def assert_def split_name_def truthy_string_def eff_defs)
      with assms show ?thesis
        by simp
    next
      case (Some pname)
      with Inr have project: "getProject w projectId = Inr (Project (Some pname))"
        by (cases project) simp
      show ?thesis
      proof (cases "trailing_segment pname = []")
        case True
        with named project have "recognized_failure w targetPrincipal =
            Some (entity_not_found ''ProjectsClient.project.name.projectNumber'')"
          by (simp add: recognized_failure_def Let_def)
        moreover from named project True have "fst (init w targetPrincipal s) =
            Inl (entity_not_found ''ProjectsClient.project.name.projectNumber'')"
          by (simp add: entity_not_found_def init_def assert_def split_name_def pop_split
                truthy_string_def eff_defs)
        ultimately show ?thesis
          using assms by simp
      next
        case False
        show ?thesis
        proof (cases "listIdentityAwareProxyClients w projectId (trailing_segment pname)")
          case (Inl rejection)
          with named project False have "fst (init w targetPrincipal s) = Inl rejection"
            by (simp add: init_def assert_def split_name_def pop_split truthy_string_def eff_defs)
          with assms Inl show ?thesis
            by auto
        next
          case (Inr clients)
          note reached = init_reaches_provider[OF named project False Inr, of targetPrincipal s]
          show ?thesis
          proof (cases "find (\<lambda>v. displayName v = Some ''IAP-App-Engine-app'') clients")
            case None
            with named project False Inr have "recognized_failure w targetPrincipal =
                Some (entity_not_found
                  ''IdentityAwareProxyOAuthServiceClient.find[\"IAP-App-Engine-app\"]'')"
              by (simp add: recognized_failure_def Let_def)
            with reached None assms show ?thesis
              by (simp add: entity_not_found_def)
          next
            case found: (Some appEngineClient)
            show ?thesis
            proof (cases "client_name appEngineClient")
              case None
              with reached found assms show ?thesis
                by simp
            next
              case (Some name)
              with named project False Inr found
              have table: "recognized_failure w targetPrincipal =
                  provider_failure w projectId targetPrincipal"
                by (simp add: recognized_failure_def Let_def)
              from reached found Some assms
              have "fst (createIdTokenProvider w projectId (trailing_segment name) targetPrincipal
                   (s\<lparr>trace := trace s @ [GetProject projectId,
                        ListIdentityAwareProxyClients projectId (trailing_segment pname)]\<rparr>)) = Inl e"
                by (simp split: prod.splits sum.splits)
              from createIdTokenProvider_fails_only_so[OF this] table show ?thesis
                by auto
            qed
          qed
        qed
      qed
    qed
  qed
qed

text \<open>
  Claim C8. In every run that fails with one of the recognised kinds (the parser has
  handed over the arguments and the environment's answers make a recognised failure
  \<open>e\<close>: a lookup that \<open>assert\<close> refuses, a token wanted locally without impersonation,
  no identity in the managed path), the object that \<open>assert\<close> or
  \<open>createIdTokenProvider\<close> throws is \<open>e\<close>, with its \<open>type\<close>, \<open>title\<close> and \<open>message\<close>;
  no \<open>catch\<close> on the way takes it, so \<open>init\<close> and \<open>main\<close> end with it in the state
  \<open>init\<close> left; and the handler at the top level prints it to standard error and sets
  the exit code to 1. By the lemma before, the program throws its objects in no other
  run.
\<close>

theorem recognized_errors_reach_top_level:
  assumes "parseAsync w args = Resolves targetPrincipal"
    and "recognized_failure w targetPrincipal = Some e"
  shows "recognized e
       \<and> e = Tagged (err_type e) (err_title e) (err_message e) (err_error e)
       \<and> fst (init w targetPrincipal s) = Inl e
       \<and> main w args s = (Some (Inl e), snd (init w targetPrincipal s))
       \<and> run w args s =
           (snd (init w targetPrincipal s))
             \<lparr>trace := trace (snd (init w targetPrincipal s)) @ [Stderr (ERROR e)],
              exitCode := Some 1\<rparr>"
proof -
  from assms(2) have kind: "recognized e"
    by (rule recognized_failure_kind)
  then have shape: "e = Tagged (err_type e) (err_title e) (err_message e) (err_error e)"
    by (cases e) (simp_all add: recognized_def)
  from assms(2) have thrown: "fst (init w targetPrincipal s) = Inl e"
    by (rule init_recognized_failure)
  obtain r s1 where i: "init w targetPrincipal s = (r, s1)"
    by (cases "init w targetPrincipal s")
  with thrown have "r = Inl e"
    by simp
  with assms(1) i have rejected: "main w args s = (Some (Inl e), snd (init w targetPrincipal s))"
    by (simp add: main_def andThen_def)
  then have "run w args s =
           (snd (init w targetPrincipal s))
             \<lparr>trace := trace (snd (init w targetPrincipal s)) @ [Stderr (ERROR e)],
              exitCode := Some 1\<rparr>"
    by (simp add: run_def)
  with kind shape thrown rejected show ?thesis
    by simp
qed

theorem recognized_errors_reach_top_level_witness:
  "run projectless_world [] start =
     \<lparr>exitCode = Some 1,
      trace = [Stderr (ERROR (Tagged ''illegal-state/entity-not-found''
                 ''Object failed validation [projectId envars]'' ''undefined'' None))]\<rparr> \<and>
   run numberless_world [] start =
     \<lparr>exitCode = Some 1,
      trace = [GetProject ''demo'',
               Stderr (ERROR (Tagged ''illegal-state/entity-not-found''
                 ''Object failed validation [ProjectsClient.project.name.projectNumber]''
                 ''undefined'' None))]\<rparr> \<and>
   run foreign_brand_world [] start =
     \<lparr>exitCode = Some 1,
      trace = [GetProject ''demo'', ListIdentityAwareProxyClients ''demo'' ''42'',
               Stderr (ERROR (Tagged ''illegal-state/entity-not-found''
                 ''Object failed validation [IdentityAwareProxyOAuthServiceClient.find[\"IAP-App-Engine-app\"]]''
                 ''undefined'' None))]\<rparr> \<and>
   run (managed_world\<lparr>env := local_env\<rparr>) [] start =
     \<lparr>exitCode = Some 1,
      trace = [GetProject ''demo'', ListIdentityAwareProxyClients ''demo'' ''42'',
               AuthGetClient (GoogleAuth ''demo'' scopes),
               Stdout (ProviderType ''adc/gcloud'' None),
               Stderr (ERROR (Tagged ''illegal-access/iap-local'' ''Forbidden IAP from local''
                 ''Use impersonation'' None))]\<rparr> \<and>
   run tokenless_world [] start =
     \<lparr>exitCode = Some 1,
      trace = [GetProject ''demo'', ListIdentityAwareProxyClients ''demo'' ''42'',
               AuthGetClient (GoogleAuth ''demo'' scopes),
               Stdout (ProviderType ''managed'' None),
               AuthGetCredentials (GoogleAuth ''demo'' scopes),
               AuthGetAccessToken (GoogleAuth ''demo'' scopes),
               Stderr (ERROR (Tagged ''service-account/not-found'' ''Impersonation Needed''
                 ''In this compute context, you MUST use service account impersonation''
                 (Some (Rejected ''no access token''))))]\<rparr>"
proof -
  let ?nf = "Tagged ''illegal-state/entity-not-found''
                 ''Object failed validation [projectId envars]'' ''undefined'' None"
  let ?nn = "Tagged ''illegal-state/entity-not-found''
                 ''Object failed validation [ProjectsClient.project.name.projectNumber]''
                 ''undefined'' None"
  let ?nc = "Tagged ''illegal-state/entity-not-found''
                 ''Object failed validation [IdentityAwareProxyOAuthServiceClient.find[\"IAP-App-Engine-app\"]]''
                 ''undefined'' None"
  let ?ia = "Tagged ''illegal-access/iap-local'' ''Forbidden IAP from local'' ''Use impersonation'' None"
  let ?sa = "Tagged ''service-account/not-found'' ''Impersonation Needed''
                 ''In this compute context, you MUST use service account impersonation''
                 (Some (Rejected ''no access token''))"
  have ts: "trailing_segment ''projects/42'' = ''42''" "trailing_segment ''projects/'' = []"
    by (simp_all add: trailing_segment_def)
  have p: "parseAsync projectless_world [] = Resolves None"
    "parseAsync numberless_world [] = Resolves None"
    "parseAsync foreign_brand_world [] = Resolves None"
    "parseAsync (managed_world\<lparr>env := local_env\<rparr>) [] = Resolves None"
    "parseAsync tokenless_world [] = Resolves None"
    by (simp_all add: projectless_world_def numberless_world_def foreign_brand_world_def
          tokenless_world_def userinfo_world_def managed_world_def)
  have f1: "recognized_failure projectless_world None = Some ?nf"
    by (simp add: recognized_failure_def entity_not_found_def js_or_def Let_def
          projectless_world_def managed_world_def)
  have f2: "recognized_failure numberless_world None = Some ?nn"
    by (simp add: recognized_failure_def entity_not_found_def js_or_def Let_def ts
          numberless_world_def managed_world_def managed_env_def)
  have f3: "recognized_failure foreign_brand_world None = Some ?nc"
    by (simp add: recognized_failure_def entity_not_found_def js_or_def Let_def ts
          foreign_brand_world_def managed_world_def managed_env_def brand_clients_def)
  have f4: "recognized_failure (managed_world\<lparr>env := local_env\<rparr>) None = Some ?ia"
    by (simp add: recognized_failure_def provider_failure_def illegal_access_def isManagedRuntime_def
          js_or_def Let_def ts
          managed_world_def local_env_def brand_clients_def)
  have f5: "recognized_failure tokenless_world None = Some ?sa"
    by (simp add: recognized_failure_def provider_failure_def service_account_not_found_def
          isManagedRuntime_def
          js_or_def jwt_email_def Let_def ts tokenless_world_def userinfo_world_def
          managed_world_def managed_env_def brand_clients_def)
  have i1: "snd (init projectless_world None start) = \<lparr>exitCode = None, trace = []\<rparr>"
    by (simp add: init_def assert_def js_or_def truthy_string_def eff_defs
          projectless_world_def managed_world_def start_def)
  have i2: "snd (init numberless_world None start) =
      \<lparr>exitCode = None, trace = [GetProject ''demo'']\<rparr>"
    by (simp add: init_def assert_def split_name_def pop_def truthy_string_def js_or_def eff_defs
          numberless_world_def managed_world_def managed_env_def start_def)
  have i3: "snd (init foreign_brand_world None start) =
      \<lparr>exitCode = None,
       trace = [GetProject ''demo'', ListIdentityAwareProxyClients ''demo'' ''42'']\<rparr>"
    by (simp add: init_def assert_def split_name_def pop_def truthy_string_def truthy_object_def
          js_or_def eff_defs foreign_brand_world_def managed_world_def managed_env_def
          brand_clients_def start_def)
  have i4: "snd (init (managed_world\<lparr>env := local_env\<rparr>) None start) =
      \<lparr>exitCode = Some 1,
         trace = [GetProject ''demo'', ListIdentityAwareProxyClients ''demo'' ''42'',
               AuthGetClient (GoogleAuth ''demo'' scopes),
               Stdout (ProviderType ''adc/gcloud'' None)]\<rparr>"
    by (simp add: init_def createIdTokenProvider_def assert_def split_name_def pop_def
          truthy_string_def truthy_object_def isManagedRuntime_def js_or_def eff_defs Let_def
          managed_world_def local_env_def brand_clients_def start_def)
  have i5: "snd (init tokenless_world None start) =
      \<lparr>exitCode = None,
         trace = [GetProject ''demo'', ListIdentityAwareProxyClients ''demo'' ''42'',
               AuthGetClient (GoogleAuth ''demo'' scopes),
               Stdout (ProviderType ''managed'' None),
               AuthGetCredentials (GoogleAuth ''demo'' scopes),
               AuthGetAccessToken (GoogleAuth ''demo'' scopes)]\<rparr>"
    by (simp add: init_def createIdTokenProvider_def fetchEmail_def assert_def split_name_def pop_def
          truthy_string_def truthy_object_def isManagedRuntime_def js_or_def jwt_email_def eff_defs Let_def
          tokenless_world_def userinfo_world_def
          managed_world_def managed_env_def brand_clients_def start_def)
  show ?thesis
    using recognized_errors_reach_top_level[OF p(1) f1, of start]
      recognized_errors_reach_top_level[OF p(2) f2, of start]
      recognized_errors_reach_top_level[OF p(3) f3, of start]
      recognized_errors_reach_top_level[OF p(4) f4, of start]
      recognized_errors_reach_top_level[OF p(5) f5, of start]
    by (simp add: i1 i2 i3 i4 i5)
qed

section \<open>The userinfo fallback\<close>

text \<open>
  Claim C10. In the managed path, when the credentials carry no email, the source client
  is not a JWT and the userinfo request is rejected, \<open>fetchEmail\<close> catches the rejection,
  prints it and returns the empty string; \<open>createIdTokenProvider\<close> returns the default
  provider with the empty email instead of throwing \<open>service-account/not-found\<close>, and the
  request of that provider goes to \<open>projects/-/serviceAccounts/:generateIdToken\<close>.
\<close>

theorem rejected_userinfo_gives_empty_email:
  assumes "\<not> truthy targetPrincipal"
    and "isManagedRuntime w"
    and "auth_getClient w (GoogleAuth projectId scopes) = Inr c"
    and "\<forall>e. c \<noteq> JWT e"
    and "auth_getCredentials w (GoogleAuth projectId scopes) = Inr credentials"
    and "\<not> truthy (credentials_client_email credentials)"
    and "auth_getAccessToken w (GoogleAuth projectId scopes) = Inr t"
    and "auth_request w (GoogleAuth projectId scopes) (userinfo_request t) = Inl err"
  shows "fetchEmail w (GoogleAuth projectId scopes) s1 =
           (Inr [], s1\<lparr>trace := trace s1 @
                [AuthGetAccessToken (GoogleAuth projectId scopes),
                 AuthRequest (GoogleAuth projectId scopes) (userinfo_request t),
                 Stderr (FetchEmailError err)]\<rparr>)
       \<and> createIdTokenProvider w projectId targetAudience targetPrincipal s =
           (Inr (DefaultProvider \<lparr>client_email = [], sourceClient = c\<rparr>),
            s\<lparr>trace := trace s @
                [AuthGetClient (GoogleAuth projectId scopes),
                 Stdout (ProviderType ''managed'' None),
                 AuthGetCredentials (GoogleAuth projectId scopes),
                 AuthGetAccessToken (GoogleAuth projectId scopes),
                 AuthRequest (GoogleAuth projectId scopes) (userinfo_request t),
                 Stderr (FetchEmailError err)]\<rparr>)
       \<and> snd (fetchIdToken w \<lparr>client_email = [], sourceClient = c\<rparr> audience' options s2) =
             s2\<lparr>trace := trace s2 @ ClientGetAccessToken c #
                 (case client_getAccessToken w c of
                    Inl _ \<Rightarrow> []
                  | Inr _ \<Rightarrow>
                      [ClientRequest c
                         \<lparr>url = ''https://iamcredentials.googleapis.com/v1/projects/-/serviceAccounts/:generateIdToken'',
                          http_method = Some ''POST'', headers = [],
                          data = Some \<lparr>delegates = [], audience = audience',
                                        data_includeEmail =
                                          (case options of None \<Rightarrow> True | Some opts \<Rightarrow> includeEmail opts)\<rparr>,
                          retry = True, retryConfig = RETRY_CONFIG\<rparr>])\<rparr>"
proof -
  have fe: "fetchEmail w (GoogleAuth projectId scopes) s1 =
           (Inr [], s1\<lparr>trace := trace s1 @
                [AuthGetAccessToken (GoogleAuth projectId scopes),
                 AuthRequest (GoogleAuth projectId scopes) (userinfo_request t),
                 Stderr (FetchEmailError err)]\<rparr>)" for s1 :: "'z process_scheme"
    using assms(7,8)
    by (simp add: fetchEmail_def userinfo_request_def eff_defs Let_def)
  have j: "jwt_email c = None"
    using assms(4) by (cases c) (simp_all add: jwt_email_def)
  have cr: "createIdTokenProvider w projectId targetAudience targetPrincipal s =
           (Inr (DefaultProvider \<lparr>client_email = [], sourceClient = c\<rparr>),
            s\<lparr>trace := trace s @
                [AuthGetClient (GoogleAuth projectId scopes),
                 Stdout (ProviderType ''managed'' None),
                 AuthGetCredentials (GoogleAuth projectId scopes),
                 AuthGetAccessToken (GoogleAuth projectId scopes),
                 AuthRequest (GoogleAuth projectId scopes) (userinfo_request t),
                 Stderr (FetchEmailError err)]\<rparr>)"
    using assms(1,2,3,5,6)
    by (simp add: createIdTokenProvider_def j js_or_def Let_def andThen_def await_def emit_def
          tryCatch_def fe return_def)
  have rq: "snd (fetchIdToken w \<lparr>client_email = [], sourceClient = c\<rparr> audience' options s2) =
             s2\<lparr>trace := trace s2 @ ClientGetAccessToken c #
                 (case client_getAccessToken w c of
                    Inl _ \<Rightarrow> []
                  | Inr _ \<Rightarrow>
                      [ClientRequest c
                         \<lparr>url = ''https://iamcredentials.googleapis.com/v1/projects/-/serviceAccounts/:generateIdToken'',
                          http_method = Some ''POST'', headers = [],
                          data = Some \<lparr>delegates = [], audience = audience',
                                        data_includeEmail =
                                          (case options of None \<Rightarrow> True | Some opts \<Rightarrow> includeEmail opts)\<rparr>,
                          retry = True, retryConfig = RETRY_CONFIG\<rparr>])\<rparr>"
    by (simp add: fetchIdToken_state split: sum.splits)
  from fe cr rq show ?thesis by blast
qed

theorem rejected_userinfo_gives_empty_email_witness:
  "createIdTokenProvider failing_userinfo_world ''demo'' ''gae.apps'' None start =
     (Inr (DefaultProvider \<lparr>client_email = [], sourceClient = Compute\<rparr>),
      \<lparr>exitCode = None,
       trace = [AuthGetClient (GoogleAuth ''demo'' scopes),
                Stdout (ProviderType ''managed'' None),
                AuthGetCredentials (GoogleAuth ''demo'' scopes),
                AuthGetAccessToken (GoogleAuth ''demo'' scopes),
                AuthRequest (GoogleAuth ''demo'' scopes) (userinfo_request (TokenString ''ya29'')),
                Stderr (FetchEmailError (Rejected ''401 Unauthorized''))]\<rparr>) \<and>
   snd (fetchIdToken failing_userinfo_world \<lparr>client_email = [], sourceClient = Compute\<rparr>
          ''gae.apps'' (Some \<lparr>includeEmail = True\<rparr>) start) =
     \<lparr>exitCode = None,
      trace = [ClientGetAccessToken Compute,
               ClientRequest Compute
                 \<lparr>url = ''https://iamcredentials.googleapis.com/v1/projects/-/serviceAccounts/:generateIdToken'',
                  http_method = Some ''POST'', headers = [],
                  data = Some \<lparr>delegates = [], audience = ''gae.apps'', data_includeEmail = True\<rparr>,
                  retry = True, retryConfig = RETRY_CONFIG\<rparr>]\<rparr>"
proof -
  have 1: "\<not> truthy None" by simp
  have 2: "isManagedRuntime failing_userinfo_world"
    by (simp add: isManagedRuntime_def js_or_def failing_userinfo_world_def userinfo_world_def
          managed_world_def managed_env_def)
  have 3: "auth_getClient failing_userinfo_world (GoogleAuth ''demo'' scopes) = Inr Compute"
    by (simp add: failing_userinfo_world_def userinfo_world_def managed_world_def)
  have 4: "\<forall>e. Compute \<noteq> JWT e" by simp
  have 5: "auth_getCredentials failing_userinfo_world (GoogleAuth ''demo'' scopes) = Inr (CredentialBody None)"
    by (simp add: failing_userinfo_world_def userinfo_world_def managed_world_def)
  have 6: "\<not> truthy (credentials_client_email (CredentialBody None))" by simp
  have 7: "auth_getAccessToken failing_userinfo_world (GoogleAuth ''demo'' scopes) = Inr (TokenString ''ya29'')"
    by (simp add: failing_userinfo_world_def userinfo_world_def managed_world_def)
  have 8: "auth_request failing_userinfo_world (GoogleAuth ''demo'' scopes)
             (userinfo_request (TokenString ''ya29'')) = Inl (Rejected ''401 Unauthorized'')"
    by (simp add: failing_userinfo_world_def)
  show ?thesis
    using rejected_userinfo_gives_empty_email[OF 1 2 3 4 5 6 7 8,
        where s = start and targetAudience = "''gae.apps''" and audience' = "''gae.apps''"
          and options = "Some \<lparr>includeEmail = True\<rparr>" and ?s2.0 = start and ?s1.0 = start]
    by (simp add: start_def failing_userinfo_world_def userinfo_world_def managed_world_def)
qed

section \<open>The cache entry of the second variant\<close>

text \<open>
  Claim C9. No operation of the module reads or writes \<open>cachedAuthorizationHeaderValue\<close>:
  a run started with any other entry \<open>c\<close> does the same and ends with \<open>c\<close> in place, so
  a run leaves the entry as it found it, and after a run from the module's initial
  state the entry is still \<open>{expiresInMilliseconds: 0, payload: ''}\<close>.
\<close>

theorem cache_entry_is_dead:
  "run2 w args (s\<lparr>cachedAuthorizationHeaderValue := c\<rparr>) =
     (run2 w args s)\<lparr>cachedAuthorizationHeaderValue := c\<rparr>
   \<and> cachedAuthorizationHeaderValue (run2 w args s) = cachedAuthorizationHeaderValue s
   \<and> cachedAuthorizationHeaderValue (run2 w args module_start) =
       \<lparr>expiresInMilliseconds = 0, payload = ''''\<rparr>"
proof -
  have frame: "run2 w args (s\<lparr>cachedAuthorizationHeaderValue := c\<rparr>) =
     (run2 w args s)\<lparr>cachedAuthorizationHeaderValue := c\<rparr>" for s c
  proof -
    have "main2 w args (s\<lparr>cachedAuthorizationHeaderValue := c\<rparr>) =
      (case main2 w args s of (r, s') \<Rightarrow> (r, s'\<lparr>cachedAuthorizationHeaderValue := c\<rparr>))"
      using ignores_main2[of w args] by (simp add: ignores_cache_def)
    then show ?thesis
      by (cases "main2 w args s") (simp add: run2_def split: sum.splits)
  qed
  have keep: "cachedAuthorizationHeaderValue (run2 w args s) = cachedAuthorizationHeaderValue s" for s
  proof -
    have "run2 w args s = run2 w args (s\<lparr>cachedAuthorizationHeaderValue := cachedAuthorizationHeaderValue s\<rparr>)"
      by simp
    also have "\<dots> = (run2 w args s)\<lparr>cachedAuthorizationHeaderValue := cachedAuthorizationHeaderValue s\<rparr>"
      by (rule frame)
    finally have "cachedAuthorizationHeaderValue (run2 w args s) =
      cachedAuthorizationHeaderValue ((run2 w args s)\<lparr>cachedAuthorizationHeaderValue := cachedAuthorizationHeaderValue s\<rparr>)"
      by simp
    then show ?thesis by simp
  qed
  from frame keep show ?thesis
    by (simp add: module_start_def)
qed

theorem cache_entry_is_dead_witness:
  "cachedAuthorizationHeaderValue (run2 managed_world [''sa@demo''] module_start) =
     \<lparr>expiresInMilliseconds = 0, payload = []\<rparr> \<and>
   run2 managed_world [''sa@demo'']
       (module_start\<lparr>cachedAuthorizationHeaderValue := \<lparr>expiresInMilliseconds = 5, payload = ''Bearer x''\<rparr>\<rparr>) =
     (run2 managed_world [''sa@demo''] module_start)
       \<lparr>cachedAuthorizationHeaderValue := \<lparr>expiresInMilliseconds = 5, payload = ''Bearer x''\<rparr>\<rparr>"
  using cache_entry_is_dead[where w = managed_world and args = "[''sa@demo'']"
          and s = module_start
          and c = "\<lparr>expiresInMilliseconds = 5, payload = ''Bearer x''\<rparr>"]
  by (simp add: module_start_def)

end
